theory Spec2Isabelle
  imports Complex_Main
begin

section \<open>Echo State Network orchestration (esntorch/core/esn.py)\<close>

text \<open>
  A shallow embedding of class \<open>EchoStateNetwork\<close>. Tensors are nested lists: a 3-D state
  tensor is indexed sequence, time step, feature; a 2-D tensor is a list of rows. Every
  Python exception the code can raise is a value of \<open>py_error\<close>, and every function
  returns \<open>py_error + result\<close>. The layer, the merging strategy, the learning algorithm,
  the criterion and the optimizer are collaborators that live outside esn.py: they are
  fields of the record \<open>esn\<close>, and each may itself fail. The weights of the learning
  algorithm, which Python mutates in place, are passed in and returned.
\<close>

subsection \<open>Errors and data\<close>

datatype py_error =
    KeyError
  | AttributeError
  | TypeError
  | UnboundLocalError
  | IndexError
  | RuntimeError
  | ZeroDivisionError
  | UnsupportedAlgorithm

text \<open>
  \<open>UnsupportedAlgorithm\<close> is the error the specification names for the dispatcher; no
  statement of esn.py raises it.
\<close>

type_synonym 'a tensor3 = "'a list list list"
type_synonym 'a tensor2 = "'a list list"

text \<open>
  An entry of a batch: the key or attribute is missing, is bound to \<open>None\<close>, or holds a
  tensor.
\<close>

datatype 'v entry = Absent | IsNone | Holds 'v

record ('tok, 'a) fields =
  b_text :: "'tok option"
  b_label :: "int list entry"
  b_additional_fts :: "'a tensor2 entry"

text \<open>
  The two batch shapes: a mapping read with \<open>batch["labels"]\<close> (HuggingFace), or an
  object read with \<open>batch.label\<close> (TorchText).
\<close>

datatype ('tok, 'a) batch = Keyed "('tok, 'a) fields" | Attributed "('tok, 'a) fields"

text \<open>
  What the layer receives: the whole batch in the keyed shape (\<open>batch_text = batch\<close>),
  the attribute \<open>batch.text\<close> otherwise.
\<close>

datatype ('tok, 'a) batch_text = Whole "('tok, 'a) fields" | Text 'tok

text \<open>A local variable of a Python function: assigned or not yet assigned.\<close>

datatype 'v local_var = Unbound | Bound 'v

text \<open>
  The raw outputs of the learning algorithm: a 2-D tensor of scores, one row per input
  row, or a 1-D tensor of classes (\<open>raw_outputs.dim() == 1\<close>).
\<close>

datatype raw_outputs = Scores "real tensor2" | Classes "real list"

datatype targets = ClassIds "int list" | OneHot "real tensor2"

datatype fit_return = ReturnsNone | ReturnsLosses "real list"

record ('tok, 'a, 'w) esn =
  embedding_callable :: bool
  layer_forward :: "('tok, 'a) batch_text \<Rightarrow> py_error + ('a tensor3 \<times> nat list)"
  layer_reverse_forward :: "('tok, 'a) batch_text \<Rightarrow> py_error + ('a tensor3 \<times> nat list)"
  merging_strategy :: "string option"
  merging_call ::
    "'a tensor3 \<Rightarrow> nat list \<Rightarrow> ('tok, 'a) batch_text \<Rightarrow> 'a tensor2 option \<Rightarrow> py_error + 'a tensor2"
  la_mro :: "string list"
  la_forward :: "'w \<Rightarrow> 'a tensor2 \<Rightarrow> py_error + raw_outputs"
  la_fit :: "'w \<Rightarrow> 'a tensor2 \<Rightarrow> int list \<Rightarrow> py_error + 'w"
  criterion_mro :: "string list"
  gd_step :: "'w \<Rightarrow> raw_outputs \<Rightarrow> targets \<Rightarrow> py_error + (real \<times> 'w)"
  bidirectional :: bool

text \<open>
  \<^item> \<open>embedding_callable\<close> is \<open>callable(self.layer.embedding)\<close>;
  \<^item> \<open>layer_forward\<close>, \<open>layer_reverse_forward\<close> are \<open>self.layer.forward\<close> and
    \<open>self.layer.reverse_forward\<close>, returning states and lengths;
  \<^item> \<open>merging_strategy\<close> is \<open>self.merging_strategy.merging_strategy\<close> and
    \<open>merging_call\<close> the call \<open>self.merging_strategy(states, lengths, texts, additional_fts)\<close>,
    whose last argument defaults to \<open>None\<close>;
  \<^item> \<open>la_mro\<close> lists the class of \<open>self.learning_algo\<close> and its base classes,
    \<open>la_forward\<close> is \<open>self.learning_algo(states)\<close> and \<open>la_fit\<close> is
    \<open>self.learning_algo.fit\<close>, both on the current weights;
  \<^item> \<open>criterion_mro\<close> lists the class of \<open>self.criterion\<close> and its base classes;
  \<^item> \<open>gd_step\<close> is the criterion followed by \<open>zero_grad\<close>, \<open>backward\<close> and
    \<open>step\<close>: it returns \<open>loss.item()\<close> and the updated weights.
\<close>

definition isinstance :: "string list \<Rightarrow> string \<Rightarrow> bool" where
  "isinstance mro cls = (cls \<in> set mro)"

subsection \<open>Tensor operations of torch used by the code\<close>

text \<open>\<open>torch.cat([a, b], dim=2)\<close> on 3-D tensors: the first two dimensions must agree.\<close>

definition cat_dim2 :: "'a tensor3 \<Rightarrow> 'a tensor3 \<Rightarrow> py_error + 'a tensor3" where
  "cat_dim2 a b =
     (if length a = length b \<and> list_all2 (\<lambda>x y. length x = length y) a b
      then Inr (map2 (map2 (@)) a b)
      else Inl RuntimeError)"

text \<open>\<open>torch.cat([a, b], dim=1)\<close> on 2-D tensors: the number of rows must agree.\<close>

definition cat_dim1 :: "'a tensor2 \<Rightarrow> 'a tensor2 \<Rightarrow> py_error + 'a tensor2" where
  "cat_dim1 a b =
     (if length a = length b then Inr (map2 (@) a b) else Inl RuntimeError)"

text \<open>
  \<open>torch.cat(ts, dim=0)\<close> on a list of 2-D tensors: the list must not be empty and all
  rows must have one width.
\<close>

definition same_width :: "'a tensor2 \<Rightarrow> bool" where
  "same_width rows = (case rows of [] \<Rightarrow> True | r # rs \<Rightarrow> list_all (\<lambda>x. length x = length r) rs)"

definition cat_dim0 :: "'a tensor2 list \<Rightarrow> py_error + 'a tensor2" where
  "cat_dim0 ts =
     (if ts = [] then Inl RuntimeError
      else if same_width (concat ts) then Inr (concat ts)
      else Inl RuntimeError)"

text \<open>
  \<open>torch.cat(labels_l, dim=0)\<close> on a list of 1-D label tensors; an element that is
  \<open>None\<close> is a \<open>TypeError\<close>.
\<close>

definition cat_labels :: "int list option list \<Rightarrow> py_error + int list" where
  "cat_labels ls =
     (if ls = [] then Inl RuntimeError
      else if list_all (\<lambda>l. l \<noteq> None) ls then Inr (concat (map the ls))
      else Inl TypeError)"

subsection \<open>Reading a batch\<close>

text \<open>
  The block that opens the loop body of \<open>_fit_direct\<close>, \<open>_fit_GD\<close> and \<open>predict\<close>
  (the same text three times). In the keyed branch \<open>batch["labels"]\<close> raises
  \<open>KeyError\<close> on a missing key and \<open>.to(self.device)\<close> raises \<open>AttributeError\<close> on
  \<open>None\<close>; \<open>additional_fts\<close> is assigned in both arms of the inner \<open>if\<close>. The
  attribute branch assigns \<open>batch_text\<close> and \<open>batch_label\<close> only, so
  \<open>additional_fts\<close> stays unbound. A batch of the other shape fails at the first
  access (\<open>TypeError\<close> for subscripting an object, \<open>AttributeError\<close> for a mapping
  without the attribute).
\<close>

definition read_batch ::
  "bool \<Rightarrow> ('tok, 'a) batch \<Rightarrow>
     py_error + (('tok, 'a) batch_text \<times> int list option \<times> 'a tensor2 option local_var)" where
  "read_batch callable_embedding batch =
     (if callable_embedding then
        (case batch of
           Attributed _ \<Rightarrow> Inl TypeError
         | Keyed f \<Rightarrow>
             (case b_label f of
                Absent \<Rightarrow> Inl KeyError
              | IsNone \<Rightarrow> Inl AttributeError
              | Holds lab \<Rightarrow>
                  (case b_additional_fts f of
                     Absent \<Rightarrow> Inr (Whole f, Some lab, Bound None)
                   | IsNone \<Rightarrow> Inl AttributeError
                   | Holds fts \<Rightarrow> Inr (Whole f, Some lab, Bound (Some fts)))))
      else
        (case batch of
           Keyed _ \<Rightarrow> Inl AttributeError
         | Attributed f \<Rightarrow>
             (case b_text f of
                None \<Rightarrow> Inl AttributeError
              | Some t \<Rightarrow>
                  (case b_label f of
                     Absent \<Rightarrow> Inl AttributeError
                   | IsNone \<Rightarrow> Inr (Text t, None, Unbound)
                   | Holds lab \<Rightarrow> Inr (Text t, Some lab, Unbound)))))"

text \<open>Reading a local variable: \<open>UnboundLocalError\<close> when it was never assigned.\<close>

definition read_local :: "'v local_var \<Rightarrow> py_error + 'v" where
  "read_local v = (case v of Unbound \<Rightarrow> Inl UnboundLocalError | Bound x \<Rightarrow> Inr x)"

text \<open>
  The forward pass and, when bidirectional, the reverse pass, whose lengths are bound to
  \<open>_\<close> and dropped.
\<close>

definition encode ::
  "('tok, 'a, 'w) esn \<Rightarrow> ('tok, 'a) batch_text \<Rightarrow>
     py_error + ('a tensor3 \<times> nat list \<times> 'a tensor3 option)" where
  "encode m batch_text =
     (case layer_forward m batch_text of
        Inl e \<Rightarrow> Inl e
      | Inr (states, lengths) \<Rightarrow>
          (if bidirectional m then
             (case layer_reverse_forward m batch_text of
                Inl e \<Rightarrow> Inl e
              | Inr (reversed_states, _) \<Rightarrow> Inr (states, lengths, Some reversed_states))
           else Inr (states, lengths, None)))"

text \<open>
  Modelled from the spec: \<open>mat.duplicate_labels\<close> (esntorch/utils/matrix.py is not among
  the sources) gives \<open>lengths[i]\<close> copies of the label of sequence \<open>i\<close>, in the order of
  the sequences.
\<close>

definition duplicate_labels :: "int list \<Rightarrow> nat list \<Rightarrow> int list" where
  "duplicate_labels labels lengths = concat (map2 (\<lambda>x l. replicate l x) labels lengths)"

subsection \<open>Pooling and bidirectional combination\<close>

text \<open>
  The loop \<open>for i, l in enumerate(lengths): restored_states[i, :l] = torch.flip(restored_states[i, :l], [0])\<close>
  on the clone: row \<open>i\<close> gets its first \<open>l\<close> time steps reversed (a slice stops at the
  end of the row), and an index \<open>i\<close> past the batch raises \<open>IndexError\<close>.
\<close>

fun restore_rows :: "nat \<Rightarrow> nat list \<Rightarrow> 'a tensor3 \<Rightarrow> py_error + 'a tensor3" where
  "restore_rows i [] rs = Inr rs"
| "restore_rows i (l # ls) rs =
     (if i < length rs
      then restore_rows (Suc i) ls (rs[i := rev (take l (rs ! i)) @ drop l (rs ! i)])
      else Inl IndexError)"

text \<open>
  \<open>_apply_pooling_strategy\<close>. \<open>reversed_states\<close> is \<open>None\<close> unless the caller ran the
  reverse pass; a \<open>None\<close> has no \<open>clone\<close> and is no tensor for the merging strategy.
\<close>

definition apply_pooling_strategy ::
  "('tok, 'a, 'w) esn \<Rightarrow> 'a tensor3 \<Rightarrow> nat list \<Rightarrow> ('tok, 'a) batch_text \<Rightarrow>
     'a tensor3 option \<Rightarrow> 'a tensor2 option \<Rightarrow> py_error + 'a tensor2" where
  "apply_pooling_strategy m states lengths texts reversed_states additional_fts =
     (if bidirectional m then
        (if merging_strategy m = None then
           (case reversed_states of
              None \<Rightarrow> Inl AttributeError
            | Some rs \<Rightarrow>
                (case restore_rows 0 lengths rs of
                   Inl e \<Rightarrow> Inl e
                 | Inr restored_states \<Rightarrow>
                     (case cat_dim2 states restored_states of
                        Inl e \<Rightarrow> Inl e
                      | Inr concatenated_states \<Rightarrow>
                          merging_call m concatenated_states lengths texts None)))
         else
           (case merging_call m states lengths texts additional_fts of
              Inl e \<Rightarrow> Inl e
            | Inr normal_merged_states \<Rightarrow>
                (case reversed_states of
                   None \<Rightarrow> Inl AttributeError
                 | Some rs \<Rightarrow>
                     (case merging_call m rs lengths texts None of
                        Inl e \<Rightarrow> Inl e
                      | Inr reversed_merged_states \<Rightarrow>
                          cat_dim1 normal_merged_states reversed_merged_states))))
      else merging_call m states lengths texts additional_fts)"

subsection \<open>Predictions\<close>

text \<open>\<open>tmp = [0] + [sum(tmp[:i]) for i in range(1, len(tmp) + 1)]\<close>\<close>

definition offsets :: "nat list \<Rightarrow> nat list" where
  "offsets tmp = 0 # map (\<lambda>i. sum_list (take i tmp)) [1..<Suc (length tmp)]"

text \<open>The slice \<open>xs[a:b]\<close> for \<open>0 \<le> a\<close> and \<open>0 \<le> b\<close>: it stops at the end of \<open>xs\<close>.\<close>

definition slice :: "'x list \<Rightarrow> nat \<Rightarrow> nat \<Rightarrow> 'x list" where
  "slice xs a b = take (b - a) (drop a xs)"

text \<open>
  \<open>torch.mean(rows, dim=0)\<close>: the mean of every column. Over no rows torch gives a row of
  NaN, which is \<open>None\<close> here. Floating-point numbers are modelled as reals.
\<close>

definition mean_dim0 :: "real tensor2 \<Rightarrow> real list option" where
  "mean_dim0 rows =
     (case rows of
        [] \<Rightarrow> None
      | r # _ \<Rightarrow>
          Some (map (\<lambda>j. sum_list (map (\<lambda>x. x ! j) rows) / real (length rows)) [0..<length r]))"

text \<open>
  \<open>argmax\<close> along a row: the index of the first maximal entry. \<open>argmax_from best v i xs\<close>
  scans the entries \<open>xs\<close> that start at index \<open>i\<close>, given the best index and value so
  far; only a strictly greater entry replaces the best.
\<close>

fun argmax_from :: "nat \<Rightarrow> real \<Rightarrow> nat \<Rightarrow> real list \<Rightarrow> nat" where
  "argmax_from best v i [] = best"
| "argmax_from best v i (x # xs) =
     (if v < x then argmax_from i x (Suc i) xs else argmax_from best v (Suc i) xs)"

text \<open>
  A row without entries has nothing to reduce (\<open>IndexError\<close>); in a row of NaN the first
  NaN, at index 0, is the maximum for torch.
\<close>

definition argmax_row :: "real list option \<Rightarrow> py_error + int" where
  "argmax_row row =
     (case row of
        None \<Rightarrow> Inr 0
      | Some [] \<Rightarrow> Inl IndexError
      | Some (x # xs) \<Rightarrow> Inr (int (argmax_from 0 x 1 xs)))"

fun argmax_dim1 :: "real list option list \<Rightarrow> py_error + int list" where
  "argmax_dim1 [] = Inr []"
| "argmax_dim1 (r # rs) =
     (case argmax_row r of
        Inl e \<Rightarrow> Inl e
      | Inr p \<Rightarrow> (case argmax_dim1 rs of Inl e \<Rightarrow> Inl e | Inr ps \<Rightarrow> Inr (p # ps)))"

text \<open>\<open>.float()\<close> then \<open>.type(torch.int64)\<close>: the fraction is cut off, towards zero.\<close>

definition float_to_int64 :: "real \<Rightarrow> int" where
  "float_to_int64 r = (if 0 \<le> r then \<lfloor>r\<rfloor> else \<lceil>r\<rceil>)"

text \<open>
  \<open>_compute_predictions\<close>. With no merging strategy, \<open>torch.stack\<close> of an empty list is
  a \<open>RuntimeError\<close>, and 1-D raw outputs give 0-dim means whose stack has no dimension
  1 for \<open>argmax\<close>.
\<close>

definition compute_predictions ::
  "('tok, 'a, 'w) esn \<Rightarrow> 'w \<Rightarrow> 'a tensor2 \<Rightarrow> nat list \<Rightarrow> py_error + int list" where
  "compute_predictions m w states lengths =
     (case la_forward m w states of
        Inl e \<Rightarrow> Inl e
      | Inr raw \<Rightarrow>
          (if merging_strategy m = None then
             (let tmp = offsets lengths in
              if length tmp - 1 = 0 then Inl RuntimeError
              else
                (case raw of
                   Classes _ \<Rightarrow> Inl IndexError
                 | Scores rows \<Rightarrow>
                     argmax_dim1
                       (map (\<lambda>i. mean_dim0 (slice rows (tmp ! i) (tmp ! (i + 1))))
                          [0..<length tmp - 1])))
           else
             (case raw of
                Scores rows \<Rightarrow> argmax_dim1 (map Some rows)
              | Classes cs \<Rightarrow> Inr (map float_to_int64 cs))))"

subsection \<open>predict\<close>

record pstate =
  predictions_l :: "int list list"
  correct_n :: nat
  total_n :: nat
  testing_mode :: bool

text \<open>
  \<open>(predictions == labels).sum()\<close> on two 1-D tensors: equal sizes compare entry by
  entry, a tensor of one entry is broadcast, and any other pair of sizes raises
  (\<open>None\<close>).
\<close>

definition count_equal :: "int list \<Rightarrow> int list \<Rightarrow> nat option" where
  "count_equal ps ls =
     (if length ps = length ls then Some (length (filter (\<lambda>(p, l). p = l) (zip ps ls)))
      else if length ls = 1 then Some (length (filter (\<lambda>p. p = hd ls) ps))
      else if length ps = 1 then Some (length (filter (\<lambda>l. hd ps = l) ls))
      else None)"

text \<open>
  The \<open>try\<close> block of \<open>predict\<close>: every exception in it is swallowed, leaving what the
  statements before it have already assigned. \<open>batch_label.type\<close> fails on \<open>None\<close>.
\<close>

definition try_accuracy :: "pstate \<Rightarrow> int list \<Rightarrow> int list option \<Rightarrow> pstate" where
  "try_accuracy st predictions batch_label =
     (case batch_label of
        None \<Rightarrow> st
      | Some labels \<Rightarrow>
          (let st2 = st\<lparr>total_n := total_n st + length labels\<rparr> in
           case count_equal predictions labels of
             None \<Rightarrow> st2
           | Some c \<Rightarrow> st2\<lparr>correct_n := correct_n st2 + c, testing_mode := True\<rparr>))"

text \<open>One pass of the loop body of \<open>predict\<close>.\<close>

definition predict_batch ::
  "('tok, 'a, 'w) esn \<Rightarrow> 'w \<Rightarrow> pstate \<Rightarrow> ('tok, 'a) batch \<Rightarrow> py_error + pstate" where
  "predict_batch m w st batch =
     (case read_batch (embedding_callable m) batch of
        Inl e \<Rightarrow> Inl e
      | Inr (batch_text, batch_label, additional_fts) \<Rightarrow>
     (case encode m batch_text of
        Inl e \<Rightarrow> Inl e
      | Inr (states, lengths, reversed_states) \<Rightarrow>
     (case read_local additional_fts of
        Inl e \<Rightarrow> Inl e
      | Inr fts \<Rightarrow>
     (case apply_pooling_strategy m states lengths batch_text reversed_states fts of
        Inl e \<Rightarrow> Inl e
      | Inr final_states \<Rightarrow>
     (case compute_predictions m w final_states lengths of
        Inl e \<Rightarrow> Inl e
      | Inr predictions \<Rightarrow>
          Inr (try_accuracy (st\<lparr>predictions_l := predictions_l st @ [predictions]\<rparr>)
                 predictions batch_label))))))"

fun predict_loop ::
  "('tok, 'a, 'w) esn \<Rightarrow> 'w \<Rightarrow> pstate \<Rightarrow> ('tok, 'a) batch list \<Rightarrow> py_error + pstate" where
  "predict_loop m w st [] = Inr st"
| "predict_loop m w st (batch # rest) =
     (case predict_batch m w st batch of
        Inl e \<Rightarrow> Inl e
      | Inr st' \<Rightarrow> predict_loop m w st' rest)"

text \<open>
  \<open>predict\<close> (its \<open>verbose\<close> flag only prints). The accuracy divides by
  \<open>float(total)\<close>, a \<open>ZeroDivisionError\<close> at zero, before \<open>torch.cat\<close> joins the
  predictions, which needs at least one batch.
\<close>

definition predict ::
  "('tok, 'a, 'w) esn \<Rightarrow> 'w \<Rightarrow> ('tok, 'a) batch list \<Rightarrow> py_error + (int list \<times> real option)" where
  "predict m w dataloader =
     (case predict_loop m w
             \<lparr>predictions_l = [], correct_n = 0, total_n = 0, testing_mode = False\<rparr> dataloader of
        Inl e \<Rightarrow> Inl e
      | Inr st \<Rightarrow>
          (if testing_mode st \<and> total_n st = 0 then Inl ZeroDivisionError
           else if predictions_l st = [] then Inl RuntimeError
           else Inr (concat (predictions_l st),
                     if testing_mode st
                     then Some (100 * real (correct_n st) / real (total_n st))
                     else None)))"

subsection \<open>Closed-form training\<close>

text \<open>One pass of the loop body of \<open>_fit_direct\<close>, on the two lists it appends to.\<close>

definition fit_direct_batch ::
  "('tok, 'a, 'w) esn \<Rightarrow> 'a tensor2 list \<times> int list option list \<Rightarrow> ('tok, 'a) batch \<Rightarrow>
     py_error + ('a tensor2 list \<times> int list option list)" where
  "fit_direct_batch m acc batch =
     (case read_batch (embedding_callable m) batch of
        Inl e \<Rightarrow> Inl e
      | Inr (batch_text, batch_label, additional_fts) \<Rightarrow>
     (case encode m batch_text of
        Inl e \<Rightarrow> Inl e
      | Inr (states, lengths, reversed_states) \<Rightarrow>
     (case (if merging_strategy m = None
            then (case batch_label of
                    None \<Rightarrow> Inl AttributeError
                  | Some ls \<Rightarrow> Inr (Some (duplicate_labels ls lengths)))
            else Inr batch_label) of
        Inl e \<Rightarrow> Inl e
      | Inr labels \<Rightarrow>
     (case read_local additional_fts of
        Inl e \<Rightarrow> Inl e
      | Inr fts \<Rightarrow>
     (case apply_pooling_strategy m states lengths batch_text reversed_states fts of
        Inl e \<Rightarrow> Inl e
      | Inr final_states \<Rightarrow> Inr (fst acc @ [final_states], snd acc @ [labels]))))))"

fun fit_direct_loop ::
  "('tok, 'a, 'w) esn \<Rightarrow> 'a tensor2 list \<times> int list option list \<Rightarrow> ('tok, 'a) batch list \<Rightarrow>
     py_error + ('a tensor2 list \<times> int list option list)" where
  "fit_direct_loop m acc [] = Inr acc"
| "fit_direct_loop m acc (batch # rest) =
     (case fit_direct_batch m acc batch of
        Inl e \<Rightarrow> Inl e
      | Inr acc' \<Rightarrow> fit_direct_loop m acc' rest)"

text \<open>\<open>_fit_direct\<close>: the loop, the two concatenations, one call of \<open>fit\<close>, \<open>None\<close>.\<close>

definition fit_direct ::
  "('tok, 'a, 'w) esn \<Rightarrow> 'w \<Rightarrow> ('tok, 'a) batch list \<Rightarrow> py_error + ('w \<times> fit_return)" where
  "fit_direct m w train_dataloader =
     (case fit_direct_loop m ([], []) train_dataloader of
        Inl e \<Rightarrow> Inl e
      | Inr (states_l, labels_l) \<Rightarrow>
     (case cat_dim0 states_l of
        Inl e \<Rightarrow> Inl e
      | Inr all_states \<Rightarrow>
     (case cat_labels labels_l of
        Inl e \<Rightarrow> Inl e
      | Inr all_labels \<Rightarrow>
     (case la_fit m w all_states all_labels of
        Inl e \<Rightarrow> Inl e
      | Inr w' \<Rightarrow> Inr (w', ReturnsNone)))))"

subsection \<open>Gradient-descent training\<close>

text \<open>
  \<open>torch.nn.functional.one_hot(labels).double()\<close>: one column per class up to the
  greatest label; it refuses negative labels and cannot infer the classes of an
  empty tensor.
\<close>

definition one_hot :: "int list \<Rightarrow> py_error + real tensor2" where
  "one_hot labels =
     (if labels = [] \<or> list_ex (\<lambda>l. l < 0) labels then Inl RuntimeError
      else Inr (map (\<lambda>l. map (\<lambda>j. if int j = l then 1 else 0)
                            [0..<Suc (nat (fold max (tl labels) (hd labels)))])
                  labels))"

text \<open>
  One pass of the inner loop body of \<open>_fit_GD\<close>, on the weights, \<open>n_iter\<close> and
  \<open>loss_l\<close>. \<open>batch_label.type\<close> stands outside any \<open>try\<close> here. The remainder
  \<open>n_iter % iter_steps\<close> is taken after the optimizer step and raises at
  \<open>iter_steps = 0\<close>; on integers Python's \<open>%\<close> is \<open>mod\<close>.
\<close>

definition fit_GD_batch ::
  "('tok, 'a, 'w) esn \<Rightarrow> int \<Rightarrow> 'w \<times> nat \<times> real list \<Rightarrow> ('tok, 'a) batch \<Rightarrow>
     py_error + ('w \<times> nat \<times> real list)" where
  "fit_GD_batch m iter_steps st batch =
     (case st of (w, n_iter, loss_l) \<Rightarrow>
     (case read_batch (embedding_callable m) batch of
        Inl e \<Rightarrow> Inl e
      | Inr (batch_text, batch_label, additional_fts) \<Rightarrow>
     (case encode m batch_text of
        Inl e \<Rightarrow> Inl e
      | Inr (states, lengths, reversed_states) \<Rightarrow>
     (case batch_label of
        None \<Rightarrow> Inl AttributeError
      | Some labels0 \<Rightarrow>
     (let labels = (if merging_strategy m = None then duplicate_labels labels0 lengths
                    else labels0) in
     (case read_local additional_fts of
        Inl e \<Rightarrow> Inl e
      | Inr fts \<Rightarrow>
     (case apply_pooling_strategy m states lengths batch_text reversed_states fts of
        Inl e \<Rightarrow> Inl e
      | Inr final_states \<Rightarrow>
     (case la_forward m w final_states of
        Inl e \<Rightarrow> Inl e
      | Inr outputs \<Rightarrow>
     (case (if isinstance (criterion_mro m) ''MultiLabelSoftMarginLoss'' \<or>
               isinstance (criterion_mro m) ''BCEWithLogitsLoss''
            then (case one_hot labels of Inl e \<Rightarrow> Inl e | Inr h \<Rightarrow> Inr (OneHot h))
            else Inr (ClassIds labels)) of
        Inl e \<Rightarrow> Inl e
      | Inr tgt \<Rightarrow>
     (case gd_step m w outputs tgt of
        Inl e \<Rightarrow> Inl e
      | Inr (loss, w') \<Rightarrow>
          (if iter_steps = 0 then Inl ZeroDivisionError
           else Inr (w', Suc n_iter,
                     if int (Suc n_iter) mod iter_steps = 0 then loss_l @ [loss]
                     else loss_l))))))))))))"

fun fit_GD_batches ::
  "('tok, 'a, 'w) esn \<Rightarrow> int \<Rightarrow> 'w \<times> nat \<times> real list \<Rightarrow> ('tok, 'a) batch list \<Rightarrow>
     py_error + ('w \<times> nat \<times> real list)" where
  "fit_GD_batches m iter_steps st [] = Inr st"
| "fit_GD_batches m iter_steps st (batch # rest) =
     (case fit_GD_batch m iter_steps st batch of
        Inl e \<Rightarrow> Inl e
      | Inr st' \<Rightarrow> fit_GD_batches m iter_steps st' rest)"

text \<open>The loop over \<open>range(int(epochs))\<close>, by the number of epochs still to run.\<close>

fun fit_GD_epochs ::
  "('tok, 'a, 'w) esn \<Rightarrow> int \<Rightarrow> ('tok, 'a) batch list \<Rightarrow> nat \<Rightarrow> 'w \<times> nat \<times> real list \<Rightarrow>
     py_error + ('w \<times> nat \<times> real list)" where
  "fit_GD_epochs m iter_steps dl 0 st = Inr st"
| "fit_GD_epochs m iter_steps dl (Suc k) st =
     (case fit_GD_batches m iter_steps st dl of
        Inl e \<Rightarrow> Inl e
      | Inr st' \<Rightarrow> fit_GD_epochs m iter_steps dl k st')"

definition fit_GD ::
  "('tok, 'a, 'w) esn \<Rightarrow> 'w \<Rightarrow> ('tok, 'a) batch list \<Rightarrow> int \<Rightarrow> int \<Rightarrow>
     py_error + ('w \<times> fit_return)" where
  "fit_GD m w train_dataloader epochs iter_steps =
     (case fit_GD_epochs m iter_steps train_dataloader (nat epochs) (w, 0, []) of
        Inl e \<Rightarrow> Inl e
      | Inr (w', n_iter, loss_l) \<Rightarrow> Inr (w', ReturnsLosses loss_l))"

subsection \<open>fit\<close>

definition closed_form :: "string list \<Rightarrow> bool" where
  "closed_form mro =
     (isinstance mro ''RidgeRegression'' \<or> isinstance mro ''RidgeRegression_skl'' \<or>
      isinstance mro ''LogisticRegression_skl'' \<or> isinstance mro ''LinearSVC'')"

definition fit ::
  "('tok, 'a, 'w) esn \<Rightarrow> 'w \<Rightarrow> ('tok, 'a) batch list \<Rightarrow> int \<Rightarrow> int \<Rightarrow>
     py_error + ('w \<times> fit_return)" where
  "fit m w train_dataloader epochs iter_steps =
     (if closed_form (la_mro m) then fit_direct m w train_dataloader
      else fit_GD m w train_dataloader epochs iter_steps)"

subsection \<open>A small network to run the model on\<close>

text \<open>
  Tokens are natural numbers and 0 pads. The layer turns a token \<open>t\<close> into the state
  \<open>[t]\<close> and counts the tokens that are not padding; the reverse pass reads the
  sentence backwards, adds 10 to tell the two streams apart, and reports no lengths. With
  no strategy the merging keeps the first \<open>lengths[i]\<close> states of every sequence as
  rows; any other strategy keeps the last state of every sequence. Extra features are
  appended to the rows. The weights count the optimizer steps and log the calls of the
  closed-form \<open>fit\<close>; the loss of a step is its number.
\<close>

type_synonym demo_w = "nat \<times> (real tensor2 \<times> int list) list"

definition demo_tokens :: "(nat list list, real) batch_text \<Rightarrow> nat list list option" where
  "demo_tokens bt = (case bt of Whole f \<Rightarrow> b_text f | Text t \<Rightarrow> Some t)"

definition demo_lengths :: "nat list list \<Rightarrow> nat list" where
  "demo_lengths toks = map (\<lambda>s. length (filter (\<lambda>t. t \<noteq> 0) s)) toks"

definition demo_forward ::
  "(nat list list, real) batch_text \<Rightarrow> py_error + (real tensor3 \<times> nat list)" where
  "demo_forward bt =
     (case demo_tokens bt of
        None \<Rightarrow> Inl KeyError
      | Some toks \<Rightarrow> Inr (map (map (\<lambda>t. [real t])) toks, demo_lengths toks))"

definition demo_reverse_forward ::
  "(nat list list, real) batch_text \<Rightarrow> py_error + (real tensor3 \<times> nat list)" where
  "demo_reverse_forward bt =
     (case demo_tokens bt of
        None \<Rightarrow> Inl KeyError
      | Some toks \<Rightarrow>
          Inr (map (\<lambda>s. map (\<lambda>t. [real t + 10])
                           (rev (filter (\<lambda>t. t \<noteq> 0) s) @ filter (\<lambda>t. t = 0) s)) toks,
               []))"

definition demo_merge ::
  "string option \<Rightarrow> real tensor3 \<Rightarrow> nat list \<Rightarrow> (nat list list, real) batch_text \<Rightarrow>
     real tensor2 option \<Rightarrow> py_error + real tensor2" where
  "demo_merge strategy states lengths texts fts =
     (let merged = (if strategy = None then concat (map2 (\<lambda>s l. take l s) states lengths)
                    else map2 (\<lambda>s l. s ! (l - 1)) states lengths)
      in case fts of None \<Rightarrow> Inr merged | Some f \<Rightarrow> cat_dim1 merged f)"

definition demo_esn ::
  "bool \<Rightarrow> string option \<Rightarrow> bool \<Rightarrow> string list \<Rightarrow> (nat list list, real, demo_w) esn" where
  "demo_esn callable_embedding strategy bidir mro =
     \<lparr>embedding_callable = callable_embedding,
      layer_forward = demo_forward,
      layer_reverse_forward = demo_reverse_forward,
      merging_strategy = strategy,
      merging_call = demo_merge strategy,
      la_mro = mro,
      la_forward = (\<lambda>w X. Inr (Scores (map (\<lambda>row. [3, sum_list row]) X))),
      la_fit = (\<lambda>w X Y. Inr (fst w, snd w @ [(X, Y)])),
      criterion_mro = [''CrossEntropyLoss'', ''Module'', ''object''],
      gd_step = (\<lambda>w out tgt. Inr (real (Suc (fst w)), (Suc (fst w), snd w))),
      bidirectional = bidir\<rparr>"

definition demo_batch ::
  "nat list list \<Rightarrow> int list entry \<Rightarrow> real tensor2 entry \<Rightarrow> (nat list list, real) fields" where
  "demo_batch toks lab fts = \<lparr>b_text = Some toks, b_label = lab, b_additional_fts = fts\<rparr>"

text \<open>
  Two readouts for the predictions: one returns its input rows as scores, the other the
  first entry of every row as a class.
\<close>

definition demo_scores_esn :: "string option \<Rightarrow> (nat list list, real, demo_w) esn" where
  "demo_scores_esn strategy =
     (demo_esn True strategy False [''LogisticRegression''])\<lparr>la_forward := (\<lambda>w X. Inr (Scores X))\<rparr>"

definition demo_classes_esn :: "string option \<Rightarrow> (nat list list, real, demo_w) esn" where
  "demo_classes_esn strategy =
     (demo_esn True strategy False [''LinearSVC''])\<lparr>la_forward := (\<lambda>w X. Inr (Classes (map hd X)))\<rparr>"

text \<open>
  A gradient-descent network and a closed-form network on one keyed batch of two
  sequences.
\<close>

definition demo_gd :: "(nat list list, real, demo_w) esn" where
  "demo_gd = demo_esn True (Some ''last'') False [''LogisticRegression'', ''Module'', ''object'']"

definition demo_keyed_batch :: "(nat list list, real) batch" where
  "demo_keyed_batch = Keyed (demo_batch [[1, 2, 0], [4, 5, 6]] (Holds [0, 1]) Absent)"

definition demo_cf :: "(nat list list, real, demo_w) esn" where
  "demo_cf = demo_esn True (Some ''last'') False [''RidgeRegression'', ''Module'', ''object'']"

text \<open>The bidirectional network, with or without a merging strategy.\<close>

definition demo_bi :: "string option \<Rightarrow> (nat list list, real, demo_w) esn" where
  "demo_bi strategy = demo_esn True strategy True [''LogisticRegression'', ''Module'', ''object'']"

subsection \<open>Auxiliary notions for the loss history\<close>

text \<open>
  \<open>sampled s n0 all\<close>: of the losses \<open>all\<close> of the iterations \<open>n0 + 1, n0 + 2, \<dots>\<close>,
  those whose iteration number is a multiple of \<open>s\<close>. \<open>gd_loss_and_weights\<close>: the loss
  and the new weights of one gradient step on a batch.
\<close>

definition sampled :: "int \<Rightarrow> nat \<Rightarrow> real list \<Rightarrow> real list" where
  "sampled s n0 all =
     map snd (filter (\<lambda>(k, x). int k mod s = 0) (zip [Suc n0..<Suc n0 + length all] all))"

definition gd_loss_and_weights ::
  "('tok, 'a, 'w) esn \<Rightarrow> 'w \<Rightarrow> ('tok, 'a) batch \<Rightarrow> py_error + (real \<times> 'w)" where
  "gd_loss_and_weights m w batch = 
     (case fit_GD_batch m 1 (w, 0, []) batch of
        Inl e \<Rightarrow> Inl e
      | Inr (w', n, loss_l) \<Rightarrow> Inr (last loss_l, w'))"

subsection \<open>A layer whose reverse pass reports other lengths\<close>

text \<open>
  The same network, except that the reverse pass reports the lengths \<open>g batch_text\<close>
  in place of its own; its states and its failures are kept.
\<close>

definition replace_reverse_lengths ::
  "(('tok, 'a) batch_text \<Rightarrow> nat list) \<Rightarrow> ('tok, 'a, 'w) esn \<Rightarrow> ('tok, 'a, 'w) esn" where
  "replace_reverse_lengths g m =
     m\<lparr>layer_reverse_forward :=
         (\<lambda>t. case layer_reverse_forward m t of
                 Inl e \<Rightarrow> Inl e
               | Inr (reversed_states, _) \<Rightarrow> Inr (reversed_states, g t))\<rparr>"

section \<open>Properties\<close>

subsection \<open>Dispatch of fit\<close>

text \<open>
  C1 (as amended). A learning algorithm whose class is none of \<open>RidgeRegression\<close>,
  \<open>RidgeRegression_skl\<close>, \<open>LogisticRegression_skl\<close> and \<open>LinearSVC\<close>, nor a
  subclass of one, is trained by gradient descent: \<open>fit\<close> is the \<open>else\<close> branch and
  returns what \<open>_fit_GD\<close> returns. The dispatcher has no third outcome.
\<close>

theorem fit_other_algorithm_is_gradient_descent:
  assumes "''RidgeRegression'' \<notin> set (la_mro m)"
    and "''RidgeRegression_skl'' \<notin> set (la_mro m)"
    and "''LogisticRegression_skl'' \<notin> set (la_mro m)"
    and "''LinearSVC'' \<notin> set (la_mro m)"
  shows "fit m w dl epochs iter_steps = fit_GD m w dl epochs iter_steps"
  using assms by (simp add: fit_def closed_form_def isinstance_def)

theorem fit_other_algorithm_is_gradient_descent_witness:
  "fit (demo_esn True (Some ''last'') True [''MyReadout'', ''Module'', ''object'']) (0, [])
     [Keyed (demo_batch [[1, 2, 0], [4, 5, 6]] (Holds [0, 1]) (Holds [[7], [8]]))] 3 2
   = Inr ((3, []), ReturnsLosses [2])"
proof -
  let ?m = "demo_esn True (Some ''last'') True [''MyReadout'', ''Module'', ''object'']"
  have mro: "la_mro ?m = [''MyReadout'', ''Module'', ''object'']"
    by (simp add: demo_esn_def)
  have run: "fit_GD ?m (0, [])
      [Keyed (demo_batch [[1, 2, 0], [4, 5, 6]] (Holds [0, 1]) (Holds [[7], [8]]))] 3 2
    = Inr ((3, []), ReturnsLosses [2])"
    by code_simp
  show ?thesis
    using fit_other_algorithm_is_gradient_descent [of ?m "(0, [])" _ 3 2] run
    by (simp add: mro)
qed

text \<open>
  C1 as stated fails: for a learning algorithm of the unknown class \<open>MyReadout\<close>,
  \<open>fit\<close> does not fail with \<open>UnsupportedAlgorithm\<close>; it trains by gradient descent and
  returns the losses.
\<close>

theorem fit_unknown_algorithm_counterexample:
  "\<not> closed_form (la_mro (demo_esn True (Some ''last'') True [''MyReadout'', ''Module'', ''object''])) \<and>
   fit (demo_esn True (Some ''last'') True [''MyReadout'', ''Module'', ''object'']) (0, [])
     [Keyed (demo_batch [[1, 2, 0], [4, 5, 6]] (Holds [0, 1]) (Holds [[7], [8]]))] 3 2
   \<noteq> Inl UnsupportedAlgorithm"
  by code_simp

subsection \<open>Batches without labels or without additional features\<close>

text \<open>
  C3. \<open>predict\<close> on a batch whose label is missing: the lookup \<open>batch["labels"]\<close>, or
  \<open>batch.label\<close>, stands before the \<open>try\<close> block and its exception leaves
  \<open>predict\<close>; no prediction is returned.
\<close>

theorem predict_without_labels_raises:
  "predict (demo_esn True (Some ''last'') False [''LogisticRegression'']) (0, [])
     [Keyed (demo_batch [[1, 2, 0], [4, 5, 6]] Absent Absent)] = Inl KeyError \<and>
   predict (demo_esn False (Some ''last'') False [''LogisticRegression'']) (0, [])
     [Attributed (demo_batch [[1, 2, 0], [4, 5, 6]] Absent Absent)] = Inl AttributeError"
  by code_simp

text \<open>
  C4. A batch of the attribute shape, with text and labels and no additional features:
  \<open>additional_fts\<close> is read before it was ever assigned, in both training paths and in
  prediction. The same batch in the keyed shape is processed.
\<close>

theorem attributed_batch_raises_unbound_local:
  "fit_direct (demo_esn False (Some ''last'') False [''RidgeRegression'']) (0, [])
     [Attributed (demo_batch [[1, 2, 0], [4, 5, 6]] (Holds [0, 1]) Absent)]
     = Inl UnboundLocalError \<and>
   fit_GD (demo_esn False (Some ''last'') False [''LogisticRegression'']) (0, [])
     [Attributed (demo_batch [[1, 2, 0], [4, 5, 6]] (Holds [0, 1]) Absent)] 1 100
     = Inl UnboundLocalError \<and>
   predict (demo_esn False (Some ''last'') False [''LogisticRegression'']) (0, [])
     [Attributed (demo_batch [[1, 2, 0], [4, 5, 6]] (Holds [0, 1]) Absent)]
     = Inl UnboundLocalError \<and>
   predict (demo_esn True (Some ''last'') False [''LogisticRegression'']) (0, [])
     [Keyed (demo_batch [[1, 2, 0], [4, 5, 6]] (Holds [0, 1]) Absent)]
     = Inr ([0, 1], Some 100)"
  by code_simp

subsection \<open>Pooling of forward and reversed states\<close>

lemma restore_rows_eq:
  "i + length ls \<le> length rs \<Longrightarrow>
   restore_rows i ls rs =
     Inr (map (\<lambda>k. if i \<le> k \<and> k < i + length ls
                     then rev (take (ls ! (k - i)) (rs ! k)) @ drop (ls ! (k - i)) (rs ! k)
                     else rs ! k) [0..<length rs])"
proof (induction ls arbitrary: i rs)
  case Nil
  then show ?case by (auto intro!: nth_equalityI)
next
  case (Cons l ls)
  let ?rs' = "rs[i := rev (take l (rs ! i)) @ drop l (rs ! i)]"
  have i: "i < length rs" using Cons.prems by simp
  have "restore_rows (Suc i) ls ?rs' = Inr (map (\<lambda>k. if Suc i \<le> k \<and> k < Suc i + length ls
                     then rev (take (ls ! (k - Suc i)) (?rs' ! k)) @ drop (ls ! (k - Suc i)) (?rs' ! k)
                     else ?rs' ! k) [0..<length ?rs'])"
    using Cons.prems by (intro Cons.IH) simp
  also have "map (\<lambda>k. if Suc i \<le> k \<and> k < Suc i + length ls
                     then rev (take (ls ! (k - Suc i)) (?rs' ! k)) @ drop (ls ! (k - Suc i)) (?rs' ! k)
                     else ?rs' ! k) [0..<length ?rs'] =
     map (\<lambda>k. if i \<le> k \<and> k < i + length (l # ls)
                     then rev (take ((l # ls) ! (k - i)) (rs ! k)) @ drop ((l # ls) ! (k - i)) (rs ! k)
                     else rs ! k) [0..<length rs]"
    using i by (auto simp: nth_list_update nth_Cons' Suc_diff_Suc intro!: nth_equalityI)
  finally show ?case using i by simp
qed

lemma restore_rows_rows:
  assumes "length lengths = length rs"
  shows "\<exists>restored. restore_rows 0 lengths rs = Inr restored \<and> length restored = length rs \<and>
           (\<forall>i<length rs. restored ! i = rev (take (lengths ! i) (rs ! i)) @ drop (lengths ! i) (rs ! i))"
  using restore_rows_eq [of 0 lengths rs] assms by simp

lemma flip_nth:
  "t < length row \<Longrightarrow>
   (rev (take l row) @ drop l row) ! t =
     (if t < min l (length row) then row ! (min l (length row) - 1 - t) else row ! t)"
  by (auto simp: nth_append rev_nth min_def)

text \<open>
  The reversal and the concatenation of the bidirectional branch without merging
  strategy, for one length per sequence and forward and reversed states of one shape.
  The reversed states are copied and, in sequence \<open>i\<close>, the first \<open>lengths[i]\<close> time
  steps (all of them if the sequence is shorter) are put in the opposite order while the
  later ones stay; the forward states and this copy are joined feature by feature; the
  merging strategy is then called on the result with the lengths and the texts.
\<close>

lemma bidirectional_no_pooling:
  assumes "bidirectional m" and "merging_strategy m = None"
    and "length lengths = length rs"
    and "length states = length rs"
    and "\<forall>i<length rs. length (states ! i) = length (rs ! i)"
  shows "\<exists>restored.
           apply_pooling_strategy m states lengths texts (Some rs) fts
             = merging_call m (map2 (map2 (@)) states restored) lengths texts None \<and>
           length restored = length rs \<and>
           (\<forall>i<length rs. length (restored ! i) = length (rs ! i) \<and>
              (\<forall>t<length (rs ! i).
                 restored ! i ! t =
                   (if t < min (lengths ! i) (length (rs ! i))
                    then rs ! i ! (min (lengths ! i) (length (rs ! i)) - 1 - t)
                    else rs ! i ! t)))"
proof -
  obtain restored where r: "restore_rows 0 lengths rs = Inr restored"
    and len: "length restored = length rs"
    and rows: "\<forall>i<length rs. restored ! i = rev (take (lengths ! i) (rs ! i)) @ drop (lengths ! i) (rs ! i)"
    using restore_rows_rows [OF assms(3)] by blast
  have rowlen: "\<forall>i<length rs. length (restored ! i) = length (rs ! i)"
    using rows by (auto simp: min_def)
  have "list_all2 (\<lambda>x y. length x = length y) states restored"
    using assms(4,5) len rowlen by (simp add: list_all2_conv_all_nth)
  then have cat: "cat_dim2 states restored = Inr (map2 (map2 (@)) states restored)"
    using assms(4) len by (simp add: cat_dim2_def)
  have run: "apply_pooling_strategy m states lengths texts (Some rs) fts
      = merging_call m (map2 (map2 (@)) states restored) lengths texts None"
    using assms(1,2) r cat by (simp add: apply_pooling_strategy_def)
  have elems: "\<forall>i<length rs. \<forall>t<length (rs ! i).
      restored ! i ! t =
        (if t < min (lengths ! i) (length (rs ! i))
         then rs ! i ! (min (lengths ! i) (length (rs ! i)) - 1 - t)
         else rs ! i ! t)"
    using rows by (simp add: flip_nth)
  show ?thesis using run len rowlen elems by blast
qed

lemma bidirectional_no_pooling_example:
  "apply_pooling_strategy (demo_esn True None True [''RidgeRegression''])
     [[[1], [2]], [[3], [4]]] [2, 1] (Text [[1, 2], [3, 0]]) (Some [[[5], [6]], [[7], [8]]])
     (Some [[9], [9]])
   = Inr [[1, 6], [2, 5], [3, 7]]"
proof -
  let ?m = "demo_esn True None True [''RidgeRegression'']"
  let ?S = "[[[1], [2]], [[3], [4]]] :: real tensor3"
  let ?R = "[[[5], [6]], [[7], [8]]] :: real tensor3"
  have hyps: "bidirectional ?m" "merging_strategy ?m = None"
    "length [2, 1::nat] = length ?R" "length ?S = length ?R"
    "\<forall>i<length ?R. length (?S ! i) = length (?R ! i)"
    by (simp_all add: demo_esn_def less_Suc_eq numeral_2_eq_2)
  obtain restored where run:
      "apply_pooling_strategy ?m ?S [2, 1] (Text [[1, 2], [3, 0]]) (Some ?R) (Some [[9], [9]])
         = merging_call ?m (map2 (map2 (@)) ?S restored) [2, 1] (Text [[1, 2], [3, 0]]) None"
    and len: "length restored = length ?R"
    and rows: "\<forall>i<length ?R. length (restored ! i) = length (?R ! i) \<and>
              (\<forall>t<length (?R ! i).
                 restored ! i ! t =
                   (if t < min ([2, 1] ! i) (length (?R ! i))
                    then ?R ! i ! (min ([2, 1] ! i) (length (?R ! i)) - 1 - t)
                    else ?R ! i ! t))"
    using bidirectional_no_pooling [OF hyps, of "Text [[1, 2], [3, 0]]" "Some [[9], [9]]"]
    by blast
  have r0: "restored ! 0 = [[6], [5]]"
    using rows by (intro nth_equalityI) (auto simp: less_Suc_eq numeral_2_eq_2)
  have r1: "restored ! 1 = [[7], [8]]"
    using rows by (intro nth_equalityI) (auto simp: less_Suc_eq numeral_2_eq_2)
  have "restored = [[[6], [5]], [[7], [8]]]"
    using len r0 r1 by (intro nth_equalityI) (auto simp: less_Suc_eq numeral_2_eq_2)
  then show ?thesis
    using run by (simp add: demo_esn_def demo_merge_def)
qed

text \<open>
  C2. The call of the reduction with the extra features, the last step of C2, is not
  what the code does: the call on line 160 leaves \<open>additional_fts\<close> out, unlike
  the two other calls of the merging strategy in \<open>_apply_pooling_strategy\<close>. Two
  sequences of one token each, padded to two time steps, and additional features
  \<open>[[9], [9]]\<close>: the merging strategy of the small network appends the additional
  features it is given, yet the result of \<open>_apply_pooling_strategy\<close> has none, unlike
  a call of the merging strategy with them on the same concatenation.
\<close>

theorem bidirectional_no_pooling_drops_features:
  "apply_pooling_strategy (demo_esn True None True [''RidgeRegression''])
     [[[1], [0]], [[3], [0]]] [1, 1] (Text [[1, 0], [3, 0]]) (Some [[[11], [10]], [[13], [10]]])
     (Some [[9], [9]])
   = Inr [[1, 11], [3, 13]] \<and>
   cat_dim2 [[[1], [0]], [[3], [0]]] [[[11], [10]], [[13], [10]]]
   = Inr ([[[1, 11], [0, 10]], [[3, 13], [0, 10]]] :: real tensor3) \<and>
   merging_call (demo_esn True None True [''RidgeRegression''])
     [[[1, 11], [0, 10]], [[3, 13], [0, 10]]] [1, 1] (Text [[1, 0], [3, 0]]) (Some [[9], [9]])
   = Inr [[1, 11, 9], [3, 13, 9]]"
  by code_simp

text \<open>
  C9. Bidirectional with a merging strategy: the strategy is applied to the forward
  states with the additional features and to the reversed states without them; when both
  calls succeed with as many rows, every row of the result is the forward row followed by
  the reversed row.
\<close>

theorem bidirectional_pooling:
  assumes "bidirectional m" and "merging_strategy m \<noteq> None"
    and "merging_call m states lengths texts fts = Inr normal"
    and "merging_call m rs lengths texts None = Inr reversed"
    and "length normal = length reversed"
  shows "\<exists>final. apply_pooling_strategy m states lengths texts (Some rs) fts = Inr final \<and>
           length final = length normal \<and>
           (\<forall>i<length normal. final ! i = normal ! i @ reversed ! i)"
  using assms by (auto simp: apply_pooling_strategy_def cat_dim1_def)

theorem bidirectional_pooling_witness:
  "apply_pooling_strategy (demo_esn True (Some ''last'') True [''RidgeRegression''])
     [[[1], [2]], [[3], [0]]] [2, 1] (Text [[1, 2], [3, 0]]) (Some [[[12], [11]], [[13], [10]]])
     (Some [[9], [9]])
   = Inr [[2, 9, 11], [3, 9, 13]]"
proof -
  let ?m = "demo_esn True (Some ''last'') True [''RidgeRegression'']"
  have hyps: "bidirectional ?m" "merging_strategy ?m \<noteq> None"
    by (simp_all add: demo_esn_def)
  have n: "merging_call ?m [[[1], [2]], [[3], [0]]] [2, 1] (Text [[1, 2], [3, 0]]) (Some [[9], [9]])
      = Inr [[2, 9], [3, 9]]"
    by code_simp
  have r: "merging_call ?m [[[12], [11]], [[13], [10]]] [2, 1] (Text [[1, 2], [3, 0]]) None
      = Inr [[11], [13]]"
    by code_simp
  obtain final where
      "apply_pooling_strategy ?m [[[1], [2]], [[3], [0]]] [2, 1] (Text [[1, 2], [3, 0]])
         (Some [[[12], [11]], [[13], [10]]]) (Some [[9], [9]]) = Inr final"
    and "length final = length [[2, 9], [3, 9::real]]"
    and "\<forall>i<length [[2, 9], [3, 9::real]]. final ! i = [[2, 9], [3, 9]] ! i @ [[11], [13]] ! i"
    using bidirectional_pooling [OF hyps n r] by auto
  moreover from this have "final = [[2, 9, 11], [3, 9, 13]]"
    by (intro nth_equalityI) (auto simp: less_Suc_eq numeral_2_eq_2)
  ultimately show ?thesis by simp
qed

subsection \<open>The lengths of the reverse pass\<close>

lemma rrl_fields:
  "embedding_callable (replace_reverse_lengths g m) = embedding_callable m"
  "layer_forward (replace_reverse_lengths g m) = layer_forward m"
  "merging_strategy (replace_reverse_lengths g m) = merging_strategy m"
  "merging_call (replace_reverse_lengths g m) = merging_call m"
  "la_mro (replace_reverse_lengths g m) = la_mro m"
  "la_forward (replace_reverse_lengths g m) = la_forward m"
  "la_fit (replace_reverse_lengths g m) = la_fit m"
  "criterion_mro (replace_reverse_lengths g m) = criterion_mro m"
  "gd_step (replace_reverse_lengths g m) = gd_step m"
  "bidirectional (replace_reverse_lengths g m) = bidirectional m"
  by (simp_all add: replace_reverse_lengths_def)

lemma encode_rrl: "encode (replace_reverse_lengths g m) t = encode m t"
  by (auto simp: encode_def rrl_fields split: sum.splits prod.splits)
    (auto simp: replace_reverse_lengths_def)

lemma pool_rrl:
  "apply_pooling_strategy (replace_reverse_lengths g m) s l t r f = apply_pooling_strategy m s l t r f"
  unfolding apply_pooling_strategy_def rrl_fields by (rule refl)

lemma cp_rrl: "compute_predictions (replace_reverse_lengths g m) w s l = compute_predictions m w s l"
  unfolding compute_predictions_def rrl_fields by (rule refl)

lemma pb_rrl: "predict_batch (replace_reverse_lengths g m) w st b = predict_batch m w st b"
  unfolding predict_batch_def rrl_fields encode_rrl pool_rrl cp_rrl by (rule refl)

lemma pl_rrl: "predict_loop (replace_reverse_lengths g m) w st dl = predict_loop m w st dl"
  by (induction dl arbitrary: st) (simp_all add: pb_rrl split: sum.splits)

lemma fdb_rrl: "fit_direct_batch (replace_reverse_lengths g m) acc b = fit_direct_batch m acc b"
  unfolding fit_direct_batch_def rrl_fields encode_rrl pool_rrl by (rule refl)

lemma fdl_rrl: "fit_direct_loop (replace_reverse_lengths g m) acc dl = fit_direct_loop m acc dl"
  by (induction dl arbitrary: acc) (simp_all add: fdb_rrl split: sum.splits)

lemma gdb_rrl: "fit_GD_batch (replace_reverse_lengths g m) s st b = fit_GD_batch m s st b"
  unfolding fit_GD_batch_def rrl_fields encode_rrl pool_rrl by (rule refl)

lemma gdbs_rrl: "fit_GD_batches (replace_reverse_lengths g m) s st dl = fit_GD_batches m s st dl"
  by (induction dl arbitrary: st) (simp_all add: gdb_rrl split: sum.splits)

lemma gde_rrl: "fit_GD_epochs (replace_reverse_lengths g m) s dl k st = fit_GD_epochs m s dl k st"
  by (induction k arbitrary: st) (simp_all add: gdbs_rrl split: sum.splits)

lemma encode_bidirectional:
  assumes "bidirectional m" and "layer_forward m t = Inr (states, lengths)"
    and "layer_reverse_forward m t = Inr (rs, rlengths)"
  shows "encode m t = Inr (states, lengths, Some rs)"
  using assms by (simp add: encode_def)

lemma unreverse_with_lengths:
  assumes "bidirectional m" and "merging_strategy m = None"
    and "length lengths = length rs" and "length states = length rs"
    and "\<forall>i<length rs. length (states ! i) = length (rs ! i)"
  shows "\<exists>restored. length restored = length rs \<and>
           (\<forall>i<length rs. restored ! i
                = rev (take (lengths ! i) (rs ! i)) @ drop (lengths ! i) (rs ! i)) \<and>
           apply_pooling_strategy m states lengths t (Some rs) fts
             = merging_call m (map2 (map2 (@)) states restored) lengths t None"
proof -
  obtain restored where r: "restore_rows 0 lengths rs = Inr restored"
    and len: "length restored = length rs"
    and rows: "\<forall>i<length rs. restored ! i = rev (take (lengths ! i) (rs ! i)) @ drop (lengths ! i) (rs ! i)"
    using restore_rows_rows [OF assms(3)] by blast
  have rowlen: "\<forall>i<length rs. length (restored ! i) = length (rs ! i)"
    using rows by (auto simp: min_def)
  have "list_all2 (\<lambda>x y. length x = length y) states restored"
    using assms(4,5) len rowlen by (simp add: list_all2_conv_all_nth)
  then have cat: "cat_dim2 states restored = Inr (map2 (map2 (@)) states restored)"
    using assms(4) len by (simp add: cat_dim2_def)
  have "apply_pooling_strategy m states lengths t (Some rs) fts
      = merging_call m (map2 (map2 (@)) states restored) lengths t None"
    using assms(1,2) r cat by (simp add: apply_pooling_strategy_def)
  then show ?thesis using len rows by blast
qed

lemma pool_reversed_with_lengths:
  assumes "bidirectional m" and "merging_strategy m \<noteq> None"
    and "merging_call m states lengths t fts = Inr normal"
  shows "apply_pooling_strategy m states lengths t (Some rs) fts
           = (case merging_call m rs lengths t None of
                Inl e \<Rightarrow> Inl e
              | Inr reversed \<Rightarrow> cat_dim1 normal reversed)"
  using assms by (auto simp: apply_pooling_strategy_def)

lemma predict_batch_flow:
  assumes "read_batch (embedding_callable m) b = Inr (t, lab, Bound fts)"
    and "encode m t = Inr (states, lengths, rso)"
  shows "predict_batch m w st b =
     (case apply_pooling_strategy m states lengths t rso fts of
        Inl e \<Rightarrow> Inl e
      | Inr final_states \<Rightarrow>
          (case compute_predictions m w final_states lengths of
             Inl e \<Rightarrow> Inl e
           | Inr predictions \<Rightarrow>
               Inr (try_accuracy (st\<lparr>predictions_l := predictions_l st @ [predictions]\<rparr>)
                      predictions lab)))"
  using assms by (simp add: predict_batch_def read_local_def)

lemma fit_direct_batch_flow:
  assumes "read_batch (embedding_callable m) b = Inr (t, Some ls, Bound fts)"
    and "encode m t = Inr (states, lengths, rso)"
  shows "fit_direct_batch m acc b =
     (case apply_pooling_strategy m states lengths t rso fts of
        Inl e \<Rightarrow> Inl e
      | Inr final_states \<Rightarrow>
          Inr (fst acc @ [final_states],
               snd acc @ [Some (if merging_strategy m = None then duplicate_labels ls lengths
                                else ls)]))"
  using assms by (cases "merging_strategy m") (simp_all add: fit_direct_batch_def read_local_def)

lemma fit_GD_batch_flow:
  assumes "read_batch (embedding_callable m) b = Inr (t, Some ls, Bound fts)"
    and "encode m t = Inr (states, lengths, rso)"
  shows "fit_GD_batch m iter_steps (w, n, l) b =
     (case apply_pooling_strategy m states lengths t rso fts of
        Inl e \<Rightarrow> Inl e
      | Inr final_states \<Rightarrow>
     (case la_forward m w final_states of
        Inl e \<Rightarrow> Inl e
      | Inr outputs \<Rightarrow>
     (case (if isinstance (criterion_mro m) ''MultiLabelSoftMarginLoss'' \<or>
               isinstance (criterion_mro m) ''BCEWithLogitsLoss''
            then (case one_hot (if merging_strategy m = None then duplicate_labels ls lengths
                                else ls) of
                    Inl e \<Rightarrow> Inl e
                  | Inr h \<Rightarrow> Inr (OneHot h))
            else Inr (ClassIds (if merging_strategy m = None then duplicate_labels ls lengths
                                else ls))) of
        Inl e \<Rightarrow> Inl e
      | Inr tgt \<Rightarrow>
     (case gd_step m w outputs tgt of
        Inl e \<Rightarrow> Inl e
      | Inr (loss, w') \<Rightarrow>
          (if iter_steps = 0 then Inl ZeroDivisionError
           else Inr (w', Suc n,
                     if int (Suc n) mod iter_steps = 0 then l @ [loss] else l))))))"
  using assms by (cases "merging_strategy m") (simp_all add: fit_GD_batch_def read_local_def Let_def)

text \<open>
  C10. The lengths that the reverse pass returns are dropped: whatever lengths it
  reports, the encoding of a batch, training on either path and prediction come out the
  same. In bidirectional mode the encoding of a batch carries the forward states, the
  forward lengths and the reversed states. These forward lengths are the ones that
  un-reverse the reversed states (row \<open>i\<close> of the restored copy is row \<open>i\<close> of the
  reversed states with its first \<open>lengths[i]\<close> time steps in the opposite order) and the
  ones given to the merging strategy when it pools the reversed stream. The loop bodies
  of prediction and of both training paths pass the lengths of the encoding, and no
  others, to \<open>_apply_pooling_strategy\<close>.
\<close>

theorem reverse_lengths_discarded:
  "(encode (replace_reverse_lengths g m) t = encode m t \<and>
    fit (replace_reverse_lengths g m) w dl epochs iter_steps = fit m w dl epochs iter_steps \<and>
    predict (replace_reverse_lengths g m) w dl = predict m w dl) \<and>
   (bidirectional m \<and> layer_forward m t = Inr (states, lengths) \<and>
    layer_reverse_forward m t = Inr (rs, rlengths) \<longrightarrow>
      encode m t = Inr (states, lengths, Some rs) \<and>
      (merging_strategy m = None \<and> length lengths = length rs \<and> length states = length rs \<and>
       (\<forall>i<length rs. length (states ! i) = length (rs ! i)) \<longrightarrow>
         (\<exists>restored. length restored = length rs \<and>
            (\<forall>i<length rs. restored ! i
                 = rev (take (lengths ! i) (rs ! i)) @ drop (lengths ! i) (rs ! i)) \<and>
            apply_pooling_strategy m states lengths t (Some rs) fts
              = merging_call m (map2 (map2 (@)) states restored) lengths t None)) \<and>
      (merging_strategy m \<noteq> None \<and> merging_call m states lengths t fts = Inr normal \<longrightarrow>
         apply_pooling_strategy m states lengths t (Some rs) fts
           = (case merging_call m rs lengths t None of
                Inl e \<Rightarrow> Inl e
              | Inr reversed \<Rightarrow> cat_dim1 normal reversed))) \<and>
   (read_batch (embedding_callable m) b = Inr (t, Some ls, Bound fts) \<and>
    encode m t = Inr (states, lengths, rso) \<longrightarrow>
      predict_batch m w st b =
        (case apply_pooling_strategy m states lengths t rso fts of
           Inl e \<Rightarrow> Inl e
         | Inr final_states \<Rightarrow>
             (case compute_predictions m w final_states lengths of
                Inl e \<Rightarrow> Inl e
              | Inr predictions \<Rightarrow>
                  Inr (try_accuracy (st\<lparr>predictions_l := predictions_l st @ [predictions]\<rparr>)
                         predictions (Some ls)))) \<and>
      fit_direct_batch m acc b =
        (case apply_pooling_strategy m states lengths t rso fts of
           Inl e \<Rightarrow> Inl e
         | Inr final_states \<Rightarrow>
             Inr (fst acc @ [final_states],
                  snd acc @ [Some (if merging_strategy m = None
                                   then duplicate_labels ls lengths else ls)])) \<and>
      fit_GD_batch m iter_steps (w, n, l) b =
        (case apply_pooling_strategy m states lengths t rso fts of
           Inl e \<Rightarrow> Inl e
         | Inr final_states \<Rightarrow>
        (case la_forward m w final_states of
           Inl e \<Rightarrow> Inl e
         | Inr outputs \<Rightarrow>
        (case (if isinstance (criterion_mro m) ''MultiLabelSoftMarginLoss'' \<or>
                  isinstance (criterion_mro m) ''BCEWithLogitsLoss''
               then (case one_hot (if merging_strategy m = None
                                   then duplicate_labels ls lengths else ls) of
                       Inl e \<Rightarrow> Inl e
                     | Inr h \<Rightarrow> Inr (OneHot h))
               else Inr (ClassIds (if merging_strategy m = None
                                   then duplicate_labels ls lengths else ls))) of
           Inl e \<Rightarrow> Inl e
         | Inr tgt \<Rightarrow>
        (case gd_step m w outputs tgt of
           Inl e \<Rightarrow> Inl e
         | Inr (loss, w') \<Rightarrow>
             (if iter_steps = 0 then Inl ZeroDivisionError
              else Inr (w', Suc n,
                        if int (Suc n) mod iter_steps = 0 then l @ [loss] else l)))))))"
proof (intro conjI impI)
  show "encode (replace_reverse_lengths g m) t = encode m t" by (rule encode_rrl)
  show "fit (replace_reverse_lengths g m) w dl epochs iter_steps = fit m w dl epochs iter_steps"
    unfolding fit_def fit_direct_def fit_GD_def fdl_rrl gde_rrl rrl_fields by simp
  show "predict (replace_reverse_lengths g m) w dl = predict m w dl"
    unfolding predict_def pl_rrl by simp
next
  assume "bidirectional m \<and> layer_forward m t = Inr (states, lengths) \<and>
    layer_reverse_forward m t = Inr (rs, rlengths)"
  then show "encode m t = Inr (states, lengths, Some rs)"
    by (simp add: encode_bidirectional)
next
  assume a: "bidirectional m \<and> layer_forward m t = Inr (states, lengths) \<and>
    layer_reverse_forward m t = Inr (rs, rlengths)"
    and b: "merging_strategy m = None \<and> length lengths = length rs \<and> length states = length rs \<and>
       (\<forall>i<length rs. length (states ! i) = length (rs ! i))"
  show "\<exists>restored. length restored = length rs \<and>
            (\<forall>i<length rs. restored ! i
                 = rev (take (lengths ! i) (rs ! i)) @ drop (lengths ! i) (rs ! i)) \<and>
            apply_pooling_strategy m states lengths t (Some rs) fts
              = merging_call m (map2 (map2 (@)) states restored) lengths t None"
    using a b by (intro unreverse_with_lengths) simp_all
next
  assume a: "bidirectional m \<and> layer_forward m t = Inr (states, lengths) \<and>
    layer_reverse_forward m t = Inr (rs, rlengths)"
    and b: "merging_strategy m \<noteq> None \<and> merging_call m states lengths t fts = Inr normal"
  show "apply_pooling_strategy m states lengths t (Some rs) fts
           = (case merging_call m rs lengths t None of
                Inl e \<Rightarrow> Inl e
              | Inr reversed \<Rightarrow> cat_dim1 normal reversed)"
    using a b by (intro pool_reversed_with_lengths) simp_all
next
  assume a: "read_batch (embedding_callable m) b = Inr (t, Some ls, Bound fts) \<and>
    encode m t = Inr (states, lengths, rso)"
  show "predict_batch m w st b =
        (case apply_pooling_strategy m states lengths t rso fts of
           Inl e \<Rightarrow> Inl e
         | Inr final_states \<Rightarrow>
             (case compute_predictions m w final_states lengths of
                Inl e \<Rightarrow> Inl e
              | Inr predictions \<Rightarrow>
                  Inr (try_accuracy (st\<lparr>predictions_l := predictions_l st @ [predictions]\<rparr>)
                         predictions (Some ls))))"
    using a by (intro predict_batch_flow) simp_all
  show "fit_direct_batch m acc b =
        (case apply_pooling_strategy m states lengths t rso fts of
           Inl e \<Rightarrow> Inl e
         | Inr final_states \<Rightarrow>
             Inr (fst acc @ [final_states],
                  snd acc @ [Some (if merging_strategy m = None
                                   then duplicate_labels ls lengths else ls)]))"
    using a by (intro fit_direct_batch_flow) simp_all
  show "fit_GD_batch m iter_steps (w, n, l) b =
        (case apply_pooling_strategy m states lengths t rso fts of
           Inl e \<Rightarrow> Inl e
         | Inr final_states \<Rightarrow>
        (case la_forward m w final_states of
           Inl e \<Rightarrow> Inl e
         | Inr outputs \<Rightarrow>
        (case (if isinstance (criterion_mro m) ''MultiLabelSoftMarginLoss'' \<or>
                  isinstance (criterion_mro m) ''BCEWithLogitsLoss''
               then (case one_hot (if merging_strategy m = None
                                   then duplicate_labels ls lengths else ls) of
                       Inl e \<Rightarrow> Inl e
                     | Inr h \<Rightarrow> Inr (OneHot h))
               else Inr (ClassIds (if merging_strategy m = None
                                   then duplicate_labels ls lengths else ls))) of
           Inl e \<Rightarrow> Inl e
         | Inr tgt \<Rightarrow>
        (case gd_step m w outputs tgt of
           Inl e \<Rightarrow> Inl e
         | Inr (loss, w') \<Rightarrow>
             (if iter_steps = 0 then Inl ZeroDivisionError
              else Inr (w', Suc n,
                        if int (Suc n) mod iter_steps = 0 then l @ [loss] else l))))))"
    using a by (intro fit_GD_batch_flow) simp_all
qed


theorem reverse_lengths_discarded_witness:
  "layer_forward (demo_bi None) (Whole (demo_batch [[1, 2, 0], [4, 5, 6]] (Holds [0, 1]) Absent))
     = Inr ([[[1], [2], [0]], [[4], [5], [6]]], [2, 3]) \<and>
   layer_reverse_forward (demo_bi None)
       (Whole (demo_batch [[1, 2, 0], [4, 5, 6]] (Holds [0, 1]) Absent))
     = Inr ([[[12], [11], [10]], [[16], [15], [14]]], []) \<and>
   encode (demo_bi None) (Whole (demo_batch [[1, 2, 0], [4, 5, 6]] (Holds [0, 1]) Absent))
     = Inr ([[[1], [2], [0]], [[4], [5], [6]]], [2, 3],
            Some [[[12], [11], [10]], [[16], [15], [14]]]) \<and>
   apply_pooling_strategy (demo_bi None) [[[1], [2], [0]], [[4], [5], [6]]] [2, 3]
       (Whole (demo_batch [[1, 2, 0], [4, 5, 6]] (Holds [0, 1]) Absent))
       (Some [[[12], [11], [10]], [[16], [15], [14]]]) None
     = Inr [[1, 11], [2, 12], [4, 14], [5, 15], [6, 16]] \<and>
   apply_pooling_strategy (demo_bi (Some ''last'')) [[[1], [2], [0]], [[4], [5], [6]]] [2, 3]
       (Whole (demo_batch [[1, 2, 0], [4, 5, 6]] (Holds [0, 1]) Absent))
       (Some [[[12], [11], [10]], [[16], [15], [14]]]) None
     = Inr [[2, 11], [6, 14]] \<and>
   predict_batch (demo_bi None) (0, [])
       \<lparr>predictions_l = [], correct_n = 0, total_n = 0, testing_mode = False\<rparr> demo_keyed_batch
     = Inr \<lparr>predictions_l = [[1, 1]], correct_n = 1, total_n = 2, testing_mode = True\<rparr> \<and>
   fit_direct_batch (demo_bi None) ([], []) demo_keyed_batch
     = Inr ([[[1, 11], [2, 12], [4, 14], [5, 15], [6, 16]]], [Some [0, 0, 1, 1, 1]]) \<and>
   fit_GD_batch (demo_bi None) 100 ((0, []), 0, []) demo_keyed_batch = Inr ((1, []), 1, [])"
proof -
  let ?m = "demo_bi None"
  let ?p = "demo_bi (Some ''last'')"
  let ?t = "Whole (demo_batch [[1, 2, 0], [4, 5, 6]] (Holds [0, 1]) Absent)
              :: (nat list list, real) batch_text"
  let ?S = "[[[1], [2], [0]], [[4], [5], [6]]] :: real tensor3"
  let ?R = "[[[12], [11], [10]], [[16], [15], [14]]] :: real tensor3"
  let ?st = "\<lparr>predictions_l = [], correct_n = 0, total_n = 0, testing_mode = False\<rparr>"
  let ?rows = "[[1, 11], [2, 12], [4, 14], [5, 15], [6, 16]] :: real tensor2"
  have fwd: "layer_forward ?m ?t = Inr (?S, [2, 3])"
    and rev: "layer_reverse_forward ?m ?t = Inr (?R, [])"
    by code_simp+
  have h1: "bidirectional ?m \<and> layer_forward ?m ?t = Inr (?S, [2, 3]) \<and>
      layer_reverse_forward ?m ?t = Inr (?R, [])"
    using fwd rev by (simp add: demo_bi_def demo_esn_def)
  have h2: "merging_strategy ?m = None \<and> length [2, 3 :: nat] = length ?R \<and>
      length ?S = length ?R \<and> (\<forall>i<length ?R. length (?S ! i) = length (?R ! i))"
    by (simp add: demo_bi_def demo_esn_def less_Suc_eq numeral_2_eq_2)
  note T1 = reverse_lengths_discarded [where m = ?m and t = ?t and states = ?S
      and lengths = "[2, 3]" and rs = ?R and rlengths = "[]" and fts = None
      and b = demo_keyed_batch and ls = "[0, 1]" and rso = "Some ?R" and st = ?st
      and acc = "([], [])" and w = "(0, [])" and n = 0 and l = "[]" and iter_steps = 100]
  note A = T1 [THEN conjunct2, THEN conjunct1, THEN mp, OF h1]
  have enc: "encode ?m ?t = Inr (?S, [2, 3], Some ?R)"
    by (rule A [THEN conjunct1])
  obtain restored where len: "length restored = length ?R"
    and rows: "\<forall>i<length ?R. restored ! i
        = rev (take ([2, 3] ! i) (?R ! i)) @ drop ([2, 3] ! i) (?R ! i)"
    and run: "apply_pooling_strategy ?m ?S [2, 3] ?t (Some ?R) None
        = merging_call ?m (map2 (map2 (@)) ?S restored) [2, 3] ?t None"
    using A [THEN conjunct2, THEN conjunct1, THEN mp, OF h2] by blast
  have "restored = [[[11], [12], [10]], [[14], [15], [16]]]"
    using len rows by (intro nth_equalityI) (auto simp: less_Suc_eq numeral_2_eq_2)
  then have ap: "apply_pooling_strategy ?m ?S [2, 3] ?t (Some ?R) None = Inr ?rows"
    using run by (simp add: demo_bi_def demo_esn_def demo_merge_def)
  have h3: "read_batch (embedding_callable ?m) demo_keyed_batch = Inr (?t, Some [0, 1], Bound None) \<and>
      encode ?m ?t = Inr (?S, [2, 3], Some ?R)"
    using enc by (simp add: read_batch_def demo_keyed_batch_def demo_batch_def demo_bi_def
        demo_esn_def)
  note B = T1 [THEN conjunct2, THEN conjunct2, THEN mp, OF h3]
  have cp: "compute_predictions ?m (0, []) ?rows [2, 3] = Inr [1, 1]"
    by code_simp
  have pb: "predict_batch ?m (0, []) ?st demo_keyed_batch
      = Inr \<lparr>predictions_l = [[1, 1]], correct_n = 1, total_n = 2, testing_mode = True\<rparr>"
    unfolding B [THEN conjunct1] ap sum.case cp
    by (simp add: try_accuracy_def count_equal_def)
  have fd: "fit_direct_batch ?m ([], []) demo_keyed_batch = Inr ([?rows], [Some [0, 0, 1, 1, 1]])"
    unfolding B [THEN conjunct2, THEN conjunct1] ap sum.case
    by (simp add: demo_bi_def demo_esn_def duplicate_labels_def numeral_2_eq_2 numeral_3_eq_3)
  have gd: "fit_GD_batch ?m 100 ((0, []), 0, []) demo_keyed_batch = Inr ((1, []), 1, [])"
    unfolding B [THEN conjunct2, THEN conjunct2] ap sum.case
    by (simp add: demo_bi_def demo_esn_def isinstance_def)
  have h4: "merging_strategy ?p \<noteq> None \<and> merging_call ?p ?S [2, 3] ?t None = Inr [[2], [6]]"
    by (simp add: demo_bi_def demo_esn_def demo_merge_def)
  have h5: "bidirectional ?p \<and> layer_forward ?p ?t = Inr (?S, [2, 3]) \<and>
      layer_reverse_forward ?p ?t = Inr (?R, [])"
    using fwd rev by (simp add: demo_bi_def demo_esn_def)
  note T2 = reverse_lengths_discarded [where m = ?p and t = ?t and states = ?S
      and lengths = "[2, 3]" and rs = ?R and rlengths = "[]" and fts = None
      and normal = "[[2], [6]]"]
  have "apply_pooling_strategy ?p ?S [2, 3] ?t (Some ?R) None
      = (case merging_call ?p ?R [2, 3] ?t None of
           Inl e \<Rightarrow> Inl e
         | Inr reversed \<Rightarrow> cat_dim1 [[2], [6]] reversed)"
    by (rule T2 [THEN conjunct2, THEN conjunct1, THEN mp, OF h5, THEN conjunct2, THEN conjunct2,
          THEN mp, OF h4])
  then have pl: "apply_pooling_strategy ?p ?S [2, 3] ?t (Some ?R) None = Inr [[2, 11], [6, 14]]"
    by (simp add: demo_bi_def demo_esn_def demo_merge_def cat_dim1_def)
  show ?thesis using fwd rev enc ap pl pb fd gd by simp
qed

subsection \<open>Predictions from raw outputs\<close>


lemma argmax_from_spec:
  assumes "length pre = i" and "best < i" and "pre ! best = v"
    and "\<forall>j<i. pre ! j \<le> v" and "\<forall>j<best. pre ! j < v"
  shows "argmax_from best v i xs < length (pre @ xs) \<and>
         (\<forall>j<length (pre @ xs). (pre @ xs) ! j \<le> (pre @ xs) ! argmax_from best v i xs) \<and>
         (\<forall>j<argmax_from best v i xs. (pre @ xs) ! j < (pre @ xs) ! argmax_from best v i xs)"
  using assms
proof (induction xs arbitrary: pre i best v)
  case Nil
  then show ?case by simp
next
  case (Cons x xs)
  show ?case
  proof (cases "v < x")
    case True
    have "argmax_from i x (Suc i) xs < length ((pre @ [x]) @ xs) \<and>
         (\<forall>j<length ((pre @ [x]) @ xs). ((pre @ [x]) @ xs) ! j \<le> ((pre @ [x]) @ xs) ! argmax_from i x (Suc i) xs) \<and>
         (\<forall>j<argmax_from i x (Suc i) xs. ((pre @ [x]) @ xs) ! j < ((pre @ [x]) @ xs) ! argmax_from i x (Suc i) xs)"
    proof (rule Cons.IH)
      show "length (pre @ [x]) = Suc i" using Cons.prems by simp
      show "i < Suc i" by simp
      show "(pre @ [x]) ! i = x" using Cons.prems by (simp add: nth_append)
      show "\<forall>j<Suc i. (pre @ [x]) ! j \<le> x"
        using Cons.prems True by (auto simp: nth_append less_Suc_eq intro: less_imp_le order_trans)
      show "\<forall>j<i. (pre @ [x]) ! j < x"
        using Cons.prems True by (auto simp: nth_append intro: le_less_trans)
    qed
    then show ?thesis using True by simp
  next
    case False
    have "argmax_from best v (Suc i) xs < length ((pre @ [x]) @ xs) \<and>
         (\<forall>j<length ((pre @ [x]) @ xs). ((pre @ [x]) @ xs) ! j \<le> ((pre @ [x]) @ xs) ! argmax_from best v (Suc i) xs) \<and>
         (\<forall>j<argmax_from best v (Suc i) xs. ((pre @ [x]) @ xs) ! j < ((pre @ [x]) @ xs) ! argmax_from best v (Suc i) xs)"
    proof (rule Cons.IH)
      show "length (pre @ [x]) = Suc i" using Cons.prems by simp
      show "best < Suc i" using Cons.prems by simp
      show "(pre @ [x]) ! best = v" using Cons.prems by (simp add: nth_append)
      show "\<forall>j<Suc i. (pre @ [x]) ! j \<le> v"
        using Cons.prems False by (auto simp: nth_append less_Suc_eq)
      show "\<forall>j<best. (pre @ [x]) ! j < v"
        using Cons.prems by (auto simp: nth_append)
    qed
    then show ?thesis using False by simp
  qed
qed

lemma argmax_row_spec:
  assumes "row \<noteq> []"
  shows "\<exists>p. argmax_row (Some row) = Inr (int p) \<and> p < length row \<and>
           (\<forall>j<length row. row ! j \<le> row ! p) \<and> (\<forall>j<p. row ! j < row ! p)"
proof -
  obtain x xs where row: "row = x # xs" using assms by (cases row) auto
  have "argmax_from 0 x 1 xs < length ([x] @ xs) \<and>
         (\<forall>j<length ([x] @ xs). ([x] @ xs) ! j \<le> ([x] @ xs) ! argmax_from 0 x 1 xs) \<and>
         (\<forall>j<argmax_from 0 x 1 xs. ([x] @ xs) ! j < ([x] @ xs) ! argmax_from 0 x 1 xs)"
    by (rule argmax_from_spec) auto
  then show ?thesis unfolding row by (auto simp: argmax_row_def)
qed

lemma argmax_dim1_spec:
  assumes "\<forall>i<length rs. \<exists>row. rs ! i = Some row \<and> row \<noteq> []"
  shows "\<exists>preds. argmax_dim1 rs = Inr preds \<and> length preds = length rs \<and>
           (\<forall>i<length rs. 0 \<le> preds ! i \<and> nat (preds ! i) < length (the (rs ! i)) \<and>
              (\<forall>j<length (the (rs ! i)). the (rs ! i) ! j \<le> the (rs ! i) ! nat (preds ! i)) \<and>
              (\<forall>j<nat (preds ! i). the (rs ! i) ! j < the (rs ! i) ! nat (preds ! i)))"
  using assms
proof (induction rs)
  case Nil
  then show ?case by simp
next
  case (Cons r rs)
  from Cons.prems obtain row where r: "r = Some row" "row \<noteq> []" by fastforce
  obtain p where p: "argmax_row (Some row) = Inr (int p)" "p < length row"
      "\<forall>j<length row. row ! j \<le> row ! p" "\<forall>j<p. row ! j < row ! p"
    using argmax_row_spec [OF r(2)] by blast
  have "\<forall>i<length rs. \<exists>row. rs ! i = Some row \<and> row \<noteq> []"
    using Cons.prems by fastforce
  from Cons.IH [OF this] obtain preds where preds: "argmax_dim1 rs = Inr preds"
      "length preds = length rs"
      "\<forall>i<length rs. 0 \<le> preds ! i \<and> nat (preds ! i) < length (the (rs ! i)) \<and>
              (\<forall>j<length (the (rs ! i)). the (rs ! i) ! j \<le> the (rs ! i) ! nat (preds ! i)) \<and>
              (\<forall>j<nat (preds ! i). the (rs ! i) ! j < the (rs ! i) ! nat (preds ! i))"
    by blast
  have run: "argmax_dim1 (r # rs) = Inr (int p # preds)"
    using r p(1) preds(1) by simp
  have "\<forall>i<length (r # rs). 0 \<le> (int p # preds) ! i \<and> nat ((int p # preds) ! i) < length (the ((r # rs) ! i)) \<and>
              (\<forall>j<length (the ((r # rs) ! i)). the ((r # rs) ! i) ! j \<le> the ((r # rs) ! i) ! nat ((int p # preds) ! i)) \<and>
              (\<forall>j<nat ((int p # preds) ! i). the ((r # rs) ! i) ! j < the ((r # rs) ! i) ! nat ((int p # preds) ! i))"
  proof (intro allI impI)
    fix i assume "i < length (r # rs)"
    then show "0 \<le> (int p # preds) ! i \<and> nat ((int p # preds) ! i) < length (the ((r # rs) ! i)) \<and>
              (\<forall>j<length (the ((r # rs) ! i)). the ((r # rs) ! i) ! j \<le> the ((r # rs) ! i) ! nat ((int p # preds) ! i)) \<and>
              (\<forall>j<nat ((int p # preds) ! i). the ((r # rs) ! i) ! j < the ((r # rs) ! i) ! nat ((int p # preds) ! i))"
      using r p preds(3) by (cases i) simp_all
  qed
  then show ?case using run preds(2) by auto
qed

lemma float_to_int64_of_int: "float_to_int64 (real_of_int k) = k"
  by (simp add: float_to_int64_def)

text \<open>
  C6 (as amended). With a merging strategy the code looks at the rank of the raw outputs,
  not at their number of columns: for 2-D raw outputs with at least one column, one
  column included, the prediction of a row is the lowest index of a maximal entry of that
  row; 1-D raw outputs are cast to integers entry by entry, which leaves class ids as
  they are.
\<close>

theorem predictions_with_pooling:
  assumes "merging_strategy m \<noteq> None" and "la_forward m w states = Inr raw"
  shows "(\<forall>rows. raw = Scores rows \<and> (\<forall>r\<in>set rows. r \<noteq> []) \<longrightarrow>
            (\<exists>preds. compute_predictions m w states lengths = Inr preds \<and>
               length preds = length rows \<and>
               (\<forall>i<length rows. 0 \<le> preds ! i \<and> nat (preds ! i) < length (rows ! i) \<and>
                  (\<forall>j<length (rows ! i). rows ! i ! j \<le> rows ! i ! nat (preds ! i)) \<and>
                  (\<forall>j<nat (preds ! i). rows ! i ! j < rows ! i ! nat (preds ! i))))) \<and>
         (\<forall>cs. raw = Classes cs \<longrightarrow>
            compute_predictions m w states lengths = Inr (map float_to_int64 cs)) \<and>
         (\<forall>ks. raw = Classes (map real_of_int ks) \<longrightarrow>
            compute_predictions m w states lengths = Inr ks)"
proof (intro conjI allI impI)
  fix rows assume h: "raw = Scores rows \<and> (\<forall>r\<in>set rows. r \<noteq> [])"
  have "\<forall>i<length (map Some rows). \<exists>row. map Some rows ! i = Some row \<and> row \<noteq> []"
    using h by simp
  from argmax_dim1_spec [OF this]
  show "\<exists>preds. compute_predictions m w states lengths = Inr preds \<and>
               length preds = length rows \<and>
               (\<forall>i<length rows. 0 \<le> preds ! i \<and> nat (preds ! i) < length (rows ! i) \<and>
                  (\<forall>j<length (rows ! i). rows ! i ! j \<le> rows ! i ! nat (preds ! i)) \<and>
                  (\<forall>j<nat (preds ! i). rows ! i ! j < rows ! i ! nat (preds ! i)))"
    using assms h by (auto simp: compute_predictions_def)
next
  fix cs assume "raw = Classes cs"
  then show "compute_predictions m w states lengths = Inr (map float_to_int64 cs)"
    using assms by (auto simp: compute_predictions_def)
next
  fix ks assume "raw = Classes (map real_of_int ks)"
  then show "compute_predictions m w states lengths = Inr ks"
    using assms by (auto simp: compute_predictions_def float_to_int64_of_int comp_def)
qed


lemma offsets_length: "length (offsets ls) = Suc (length ls)"
  by (simp add: offsets_def del: upt_Suc)

lemma offsets_nth: "i \<le> length ls \<Longrightarrow> offsets ls ! i = sum_list (take i ls)"
proof (cases i)
  case 0
  then show ?thesis by (simp add: offsets_def)
next
  case (Suc k)
  assume "i \<le> length ls"
  then have "k < Suc (length ls) - 1" using Suc by simp
  then have "map (\<lambda>i. sum_list (take i ls)) [1..<Suc (length ls)] ! k = sum_list (take (1 + k) ls)"
    by (rule nth_map_upt)
  then show ?thesis using Suc by (simp add: offsets_def del: upt_Suc)
qed

lemma offsets_eq: "offsets ls = map (\<lambda>i. sum_list (take i ls)) [0..<Suc (length ls)]"
  by (rule nth_equalityI) (simp_all add: offsets_length offsets_nth less_Suc_eq_le del: upt_Suc)

lemma sum_list_take_le: "sum_list (take n (xs :: nat list)) \<le> sum_list xs"
proof -
  have "sum_list xs = sum_list (take n xs) + sum_list (drop n xs)"
    by (metis append_take_drop_id sum_list_append)
  then show ?thesis by simp
qed

lemma slice_offsets:
  assumes "i < length ls"
  shows "slice rows (offsets ls ! i) (offsets ls ! (i + 1))
           = take (ls ! i) (drop (sum_list (take i ls)) rows)"
  using assms by (simp add: slice_def offsets_nth take_Suc_conv_app_nth)

lemma span_in_range:
  assumes "i < length ls" and "sum_list ls \<le> length rows"
  shows "sum_list (take i ls) + ls ! i \<le> length rows"
proof -
  have "sum_list (take (Suc i) ls) = sum_list (take i ls) + ls ! i"
    using assms(1) by (simp add: take_Suc_conv_app_nth)
  then show ?thesis
    using sum_list_take_le [of "Suc i" ls] assms(2) by simp
qed

lemma sum_list_span:
  assumes "a + l \<le> length rows"
  shows "sum_list (map (\<lambda>x. x ! j) (take l (drop a rows))) = (\<Sum>k<l. rows ! (a + k) ! (j::nat) :: real)"
proof -
  have "sum_list (map (\<lambda>x. x ! j) (take l (drop a rows)))
      = (\<Sum>k = 0..<length (take l (drop a rows)). map (\<lambda>x. x ! j) (take l (drop a rows)) ! k)"
    by (simp add: sum_list_sum_nth)
  also have "\<dots> = (\<Sum>k = 0..<l. rows ! (a + k) ! j)"
  proof (rule sum.cong)
    show "{0..<length (take l (drop a rows))} = {0..<l}" using assms by simp
  next
    fix k assume "k \<in> {0..<l}"
    then have "k < l" by simp
    then show "map (\<lambda>x. x ! j) (take l (drop a rows)) ! k = rows ! (a + k) ! j"
      using assms by simp
  qed
  finally show ?thesis by (simp add: atLeast0LessThan)
qed

lemma mean_dim0_span:
  assumes "0 < l" and "a + l \<le> length rows" and "\<forall>r\<in>set rows. length r = c"
  shows "mean_dim0 (take l (drop a rows))
           = Some (map (\<lambda>j. (\<Sum>k<l. rows ! (a + k) ! j) / real l) [0..<c])"
proof -
  let ?span = "take l (drop a rows)"
  have len: "length ?span = l" using assms(2) by simp
  then obtain r rest where span: "?span = r # rest" using assms(1) by (cases ?span) auto
  have "r \<in> set rows"
    by (metis span list.set_intros(1) in_set_takeD in_set_dropD)
  then have r: "length r = c" using assms(3) by simp
  have "mean_dim0 ?span = Some (map (\<lambda>j. sum_list (map (\<lambda>x. x ! j) ?span) / real (length ?span)) [0..<c])"
    unfolding mean_dim0_def using span r by simp
  then show ?thesis using len sum_list_span [OF assms(2)] by simp
qed

text \<open>
  C5. No merging strategy, raw outputs that are a 2-D tensor of width \<open>c > 0\<close> with at
  least \<open>sum(lengths)\<close> rows, and sequences of at least one token. The offsets are the
  running sums \<open>0, len\<^sub>0, len\<^sub>0 + len\<^sub>1, \<dots>\<close> of the lengths. There is
  one prediction per sequence: with \<open>v\<close> the column-wise mean of the \<open>lengths[i]\<close> raw
  rows that start at offset \<open>i\<close>, the prediction is an index of \<open>v\<close> whose entry is
  maximal and strictly greater than every entry before it, the lowest index of a maximum.
\<close>

theorem predictions_without_pooling:
  assumes "merging_strategy m = None" and "la_forward m w states = Inr (Scores rows)"
    and "lengths \<noteq> []" and "\<forall>l\<in>set lengths. 0 < l"
    and "sum_list lengths \<le> length rows" and "\<forall>r\<in>set rows. length r = c" and "0 < c"
  shows "offsets lengths = map (\<lambda>i. sum_list (take i lengths)) [0..<Suc (length lengths)] \<and>
    (\<exists>preds. compute_predictions m w states lengths = Inr preds \<and>
       length preds = length lengths \<and>
       (\<forall>i<length lengths. \<exists>v. length v = c \<and>
          (\<forall>j<c. v ! j = (\<Sum>k<lengths ! i. rows ! (offsets lengths ! i + k) ! j) / real (lengths ! i)) \<and>
          0 \<le> preds ! i \<and> nat (preds ! i) < c \<and>
          (\<forall>j<c. v ! j \<le> v ! nat (preds ! i)) \<and>
          (\<forall>j<nat (preds ! i). v ! j < v ! nat (preds ! i))))"
proof
  show "offsets lengths = map (\<lambda>i. sum_list (take i lengths)) [0..<Suc (length lengths)]"
    by (rule offsets_eq)
next
  let ?tmp = "offsets lengths"
  let ?rs = "map (\<lambda>i. mean_dim0 (slice rows (?tmp ! i) (?tmp ! (i + 1)))) [0..<length ?tmp - 1]"
  let ?v = "\<lambda>i. map (\<lambda>j. (\<Sum>k<lengths ! i. rows ! (?tmp ! i + k) ! j) / real (lengths ! i)) [0..<c]"
  have n: "length ?tmp - 1 = length lengths" by (simp add: offsets_length)
  have rs: "?rs ! i = Some (?v i)" if "i < length lengths" for i
  proof -
    have pos: "0 < lengths ! i" using assms(4) that by simp
    have rng: "sum_list (take i lengths) + lengths ! i \<le> length rows"
      using span_in_range [OF that assms(5)] .
    show ?thesis
      using that n slice_offsets [OF that, of rows] mean_dim0_span [OF pos rng assms(6)]
      by (simp add: offsets_nth)
  qed
  have "\<forall>i<length ?rs. \<exists>row. ?rs ! i = Some row \<and> row \<noteq> []"
  proof (intro allI impI)
    fix i assume "i < length ?rs"
    then have i: "i < length lengths" using n by simp
    have "?v i \<noteq> []" using assms(7) by simp
    then show "\<exists>row. ?rs ! i = Some row \<and> row \<noteq> []" using rs [OF i] by blast
  qed
  from argmax_dim1_spec [OF this] obtain preds where preds: "argmax_dim1 ?rs = Inr preds"
    "length preds = length ?rs"
    "\<forall>i<length ?rs. 0 \<le> preds ! i \<and> nat (preds ! i) < length (the (?rs ! i)) \<and>
        (\<forall>j<length (the (?rs ! i)). the (?rs ! i) ! j \<le> the (?rs ! i) ! nat (preds ! i)) \<and>
        (\<forall>j<nat (preds ! i). the (?rs ! i) ! j < the (?rs ! i) ! nat (preds ! i))"
    by blast
  have run: "compute_predictions m w states lengths = Inr preds"
    using assms(1,2,3) preds(1) by (simp add: compute_predictions_def Let_def offsets_length)
  have len: "length preds = length lengths" using preds(2) n by simp
  have "\<forall>i<length lengths. \<exists>v. length v = c \<and>
          (\<forall>j<c. v ! j = (\<Sum>k<lengths ! i. rows ! (?tmp ! i + k) ! j) / real (lengths ! i)) \<and>
          0 \<le> preds ! i \<and> nat (preds ! i) < c \<and>
          (\<forall>j<c. v ! j \<le> v ! nat (preds ! i)) \<and>
          (\<forall>j<nat (preds ! i). v ! j < v ! nat (preds ! i))"
  proof (intro allI impI)
    fix i assume i: "i < length lengths"
    then have "i < length ?rs" using n by simp
    with preds(3) have p: "0 \<le> preds ! i \<and> nat (preds ! i) < length (the (?rs ! i)) \<and>
        (\<forall>j<length (the (?rs ! i)). the (?rs ! i) ! j \<le> the (?rs ! i) ! nat (preds ! i)) \<and>
        (\<forall>j<nat (preds ! i). the (?rs ! i) ! j < the (?rs ! i) ! nat (preds ! i))"
      by blast
    have v: "the (?rs ! i) = ?v i" using rs [OF i] by simp
    have lv: "length (?v i) = c" by simp
    have nv: "\<forall>j<c. ?v i ! j = (\<Sum>k<lengths ! i. rows ! (?tmp ! i + k) ! j) / real (lengths ! i)"
      by simp
    note p' = p [unfolded v lv]
    have "length (?v i) = c \<and>
          (\<forall>j<c. ?v i ! j = (\<Sum>k<lengths ! i. rows ! (?tmp ! i + k) ! j) / real (lengths ! i)) \<and>
          0 \<le> preds ! i \<and> nat (preds ! i) < c \<and>
          (\<forall>j<c. ?v i ! j \<le> ?v i ! nat (preds ! i)) \<and>
          (\<forall>j<nat (preds ! i). ?v i ! j < ?v i ! nat (preds ! i))"
      using lv nv p' by blast
    then show "\<exists>v. length v = c \<and>
          (\<forall>j<c. v ! j = (\<Sum>k<lengths ! i. rows ! (?tmp ! i + k) ! j) / real (lengths ! i)) \<and>
          0 \<le> preds ! i \<and> nat (preds ! i) < c \<and>
          (\<forall>j<c. v ! j \<le> v ! nat (preds ! i)) \<and>
          (\<forall>j<nat (preds ! i). v ! j < v ! nat (preds ! i))"
      by blast
  qed
  then show "\<exists>preds. compute_predictions m w states lengths = Inr preds \<and>
       length preds = length lengths \<and>
       (\<forall>i<length lengths. \<exists>v. length v = c \<and>
          (\<forall>j<c. v ! j = (\<Sum>k<lengths ! i. rows ! (offsets lengths ! i + k) ! j) / real (lengths ! i)) \<and>
          0 \<le> preds ! i \<and> nat (preds ! i) < c \<and>
          (\<forall>j<c. v ! j \<le> v ! nat (preds ! i)) \<and>
          (\<forall>j<nat (preds ! i). v ! j < v ! nat (preds ! i)))"
    using run len by blast
qed


theorem predictions_without_pooling_witness:
  "offsets [2, 3] = [0, 2, 5] \<and>
   compute_predictions (demo_scores_esn None) (0, [])
     [[0.4, 0.6, 0.2], [0.6, 0.4, 0.2], [0, 1, 2], [0, 1, 2], [0, 1, 5]] [2, 3] = Inr [0, 2]"
proof -
  let ?rows = "[[0.4, 0.6, 0.2], [0.6, 0.4, 0.2], [0, 1, 2], [0, 1, 2], [0, 1, 5]] :: real tensor2"
  have hyps: "merging_strategy (demo_scores_esn None) = None"
    "la_forward (demo_scores_esn None) (0, []) ?rows = Inr (Scores ?rows)"
    "[2, 3] \<noteq> ([] :: nat list)" "\<forall>l\<in>set [2, 3 :: nat]. 0 < l"
    "sum_list [2, 3] \<le> length ?rows" "\<forall>r\<in>set ?rows. length r = 3" "0 < (3::nat)"
    by (simp_all add: demo_scores_esn_def demo_esn_def)
  have off: "offsets [2, 3] = map (\<lambda>i. sum_list (take i [2, 3])) [0..<Suc (length [2, 3 :: nat])]"
    using predictions_without_pooling [OF hyps] by blast
  have "offsets [2, 3] = [0, 2, 5]"
    unfolding off by (simp add: upt_rec)
  moreover have "\<exists>preds. compute_predictions (demo_scores_esn None) (0, []) ?rows [2, 3] = Inr preds \<and>
      length preds = length [2, 3 :: nat]"
    using predictions_without_pooling [OF hyps] by blast
  moreover have "compute_predictions (demo_scores_esn None) (0, []) ?rows [2, 3] = Inr [0, 2]"
    by code_simp
  ultimately show ?thesis by simp
qed

theorem predictions_with_pooling_witness:
  "compute_predictions (demo_scores_esn (Some ''mean'')) (0, [])
     [[0.5, 0.5, 0.2], [0.1, 0.3, 0.9]] [2, 3] = Inr [0, 2] \<and>
   compute_predictions (demo_classes_esn (Some ''mean'')) (0, []) [[1], [0], [2]] [2, 3, 1]
     = Inr [1, 0, 2]"
proof -
  let ?s = "demo_scores_esn (Some ''mean'')"
  let ?c = "demo_classes_esn (Some ''mean'')"
  let ?rows = "[[0.5, 0.5, 0.2], [0.1, 0.3, 0.9]] :: real tensor2"
  have hs: "merging_strategy ?s \<noteq> None" "la_forward ?s (0, []) ?rows = Inr (Scores ?rows)"
    by (simp_all add: demo_scores_esn_def demo_esn_def)
  have hc: "merging_strategy ?c \<noteq> None"
    "la_forward ?c (0, []) [[1], [0], [2]] = Inr (Classes (map real_of_int [1, 0, 2]))"
    by (simp_all add: demo_classes_esn_def demo_esn_def)
  have "\<exists>preds. compute_predictions ?s (0, []) ?rows [2, 3] = Inr preds \<and> length preds = length ?rows"
    using predictions_with_pooling [OF hs, of "[2, 3]"] by auto
  moreover have "compute_predictions ?s (0, []) ?rows [2, 3] = Inr [0, 2]"
    by code_simp
  moreover have "compute_predictions ?c (0, []) [[1], [0], [2]] [2, 3, 1] = Inr [1, 0, 2]"
    using predictions_with_pooling [OF hc, of "[2, 3, 1]"] by blast
  ultimately show ?thesis by simp
qed

text \<open>
  C6 as stated fails on class ids that come as a 2-D tensor of a single column: they are
  not cast but reduced by \<open>argmax\<close>, which gives 0 for every row.
\<close>

theorem predictions_single_column_counterexample:
  "compute_predictions (demo_scores_esn (Some ''mean'')) (0, []) [[3], [1], [2]] [1, 1, 1]
     = Inr [0, 0, 0] \<and>
   map float_to_int64 [3, 1, 2] = [3, 1, 2]"
  by code_simp

subsection \<open>What fit returns, and the loss history\<close>

lemma sampled_Nil: "sampled s n [] = []"
  by (simp add: sampled_def)

lemma sampled_single: "sampled s n [x] = (if int (Suc n) mod s = 0 then [x] else [])"
  by (simp add: sampled_def upt_rec)

lemma sampled_append:
  "sampled s n (xs @ ys) = sampled s n xs @ sampled s (n + length xs) ys"
proof -
  have "[Suc n..<Suc n + length xs + length ys]
      = [Suc n..<Suc n + length xs] @ [Suc n + length xs..<Suc n + length xs + length ys]"
    by (rule upt_add_eq_append) simp
  then have "zip [Suc n..<Suc n + length (xs @ ys)] (xs @ ys)
      = zip [Suc n..<Suc n + length xs] xs
        @ zip [Suc (n + length xs)..<Suc (n + length xs) + length ys] ys"
    by (simp add: add.assoc del: upt_Suc)
  then show ?thesis unfolding sampled_def by simp
qed

lemma sampled_index:
  "sampled s 0 all = map (\<lambda>k. all ! (k - 1)) (filter (\<lambda>k. int k mod s = 0) [1..<Suc (length all)])"
proof -
  have "zip [Suc 0..<Suc 0 + length all] all = map (\<lambda>k. (k, all ! (k - 1))) [1..<Suc (length all)]"
    by (rule nth_equalityI) (simp_all del: upt_Suc)
  then show ?thesis
    by (simp add: sampled_def filter_map comp_def del: upt_Suc)
qed

lemma fit_GD_batch_eq:
  "fit_GD_batch m s (w, n, l) b =
     (case gd_loss_and_weights m w b of
        Inl e \<Rightarrow> Inl e
      | Inr (loss, w') \<Rightarrow>
          (if s = 0 then Inl ZeroDivisionError
           else Inr (w', Suc n, if int (Suc n) mod s = 0 then l @ [loss] else l)))"
  unfolding gd_loss_and_weights_def fit_GD_batch_def
  by (simp add: Let_def split: sum.split option.split prod.split)

lemma fit_GD_batch_sampling:
  assumes "fit_GD_batch m 1 (w, n, l1) b = Inr (w', n', l1')" and "s \<noteq> 0"
  shows "\<exists>loss. n' = Suc n \<and> l1' = l1 @ [loss] \<and>
           fit_GD_batch m s (w, n, l) b = Inr (w', Suc n, l @ sampled s n [loss])"
proof (cases "gd_loss_and_weights m w b")
  case (Inl e)
  then show ?thesis using assms(1) by (simp add: fit_GD_batch_eq)
next
  case (Inr r)
  then obtain loss w2 where r: "gd_loss_and_weights m w b = Inr (loss, w2)" by (cases r) auto
  have "w' = w2 \<and> n' = Suc n \<and> l1' = l1 @ [loss]"
    using assms(1) r by (simp add: fit_GD_batch_eq [of m 1])
  moreover have "fit_GD_batch m s (w, n, l) b = Inr (w2, Suc n, l @ sampled s n [loss])"
    using r assms(2) by (simp add: fit_GD_batch_eq [of m s] sampled_single)
  ultimately show ?thesis by blast
qed

lemma fit_GD_batches_sampling:
  assumes "fit_GD_batches m 1 (w, n, l1) dl = Inr (w', n', l1')" and "s \<noteq> 0"
  shows "\<exists>all. l1' = l1 @ all \<and> n' = n + length all \<and> length all = length dl \<and>
           fit_GD_batches m s (w, n, l) dl = Inr (w', n', l @ sampled s n all)"
  using assms(1)
proof (induction dl arbitrary: w n l1 l)
  case Nil
  then show ?case by (simp add: sampled_Nil)
next
  case (Cons b dl)
  from Cons.prems obtain st where st: "fit_GD_batch m 1 (w, n, l1) b = Inr st"
    and rest: "fit_GD_batches m 1 st dl = Inr (w', n', l1')"
    by (auto split: sum.splits)
  obtain w2 n2 l2 where st2: "st = (w2, n2, l2)" by (cases st) auto
  from fit_GD_batch_sampling [OF st [unfolded st2] assms(2), of l]
  obtain loss where b: "n2 = Suc n" "l2 = l1 @ [loss]"
      "fit_GD_batch m s (w, n, l) b = Inr (w2, Suc n, l @ sampled s n [loss])"
    by blast
  from Cons.IH [OF rest [unfolded st2 b(1) b(2)], of "l @ sampled s n [loss]"]
  obtain all where a: "l1' = (l1 @ [loss]) @ all" "n' = Suc n + length all" "length all = length dl"
      "fit_GD_batches m s (w2, Suc n, l @ sampled s n [loss]) dl
         = Inr (w', n', (l @ sampled s n [loss]) @ sampled s (Suc n) all)"
    by blast
  have "sampled s n (loss # all) = sampled s n [loss] @ sampled s (Suc n) all"
    using sampled_append [of s n "[loss]" all] by simp
  then have "fit_GD_batches m s (w, n, l) (b # dl) = Inr (w', n', l @ sampled s n (loss # all))"
    using b(3) a(4) by simp
  then show ?case using a(1,2,3) by (intro exI [of _ "loss # all"]) simp
qed

lemma fit_GD_epochs_sampling:
  assumes "fit_GD_epochs m 1 dl k (w, n, l1) = Inr (w', n', l1')" and "s \<noteq> 0"
  shows "\<exists>all. l1' = l1 @ all \<and> n' = n + length all \<and> length all = k * length dl \<and>
           fit_GD_epochs m s dl k (w, n, l) = Inr (w', n', l @ sampled s n all)"
  using assms(1)
proof (induction k arbitrary: w n l1 l)
  case 0
  then show ?case by (simp add: sampled_Nil)
next
  case (Suc k)
  from Suc.prems obtain st where st: "fit_GD_batches m 1 (w, n, l1) dl = Inr st"
    and rest: "fit_GD_epochs m 1 dl k st = Inr (w', n', l1')"
    by (auto split: sum.splits)
  obtain w2 n2 l2 where st2: "st = (w2, n2, l2)" by (cases st) auto
  from fit_GD_batches_sampling [OF st [unfolded st2] assms(2), of l]
  obtain a1 where a1: "l2 = l1 @ a1" "n2 = n + length a1" "length a1 = length dl"
      "fit_GD_batches m s (w, n, l) dl = Inr (w2, n2, l @ sampled s n a1)"
    by blast
  from Suc.IH [OF rest [unfolded st2], of "l @ sampled s n a1"]
  obtain a2 where a2: "l1' = l2 @ a2" "n' = n2 + length a2" "length a2 = k * length dl"
      "fit_GD_epochs m s dl k (w2, n2, l @ sampled s n a1)
         = Inr (w', n', (l @ sampled s n a1) @ sampled s n2 a2)"
    by blast
  have "sampled s n (a1 @ a2) = sampled s n a1 @ sampled s n2 a2"
    using sampled_append [of s n a1 a2] a1(2) by simp
  then have "fit_GD_epochs m s dl (Suc k) (w, n, l) = Inr (w', n', l @ sampled s n (a1 @ a2))"
    using a1(4) a2(4) by simp
  then show ?case using a1(1,2,3) a2(1,2,3) by (intro exI [of _ "a1 @ a2"]) simp
qed

lemma fit_GD_sampling:
  assumes "fit_GD m w dl epochs 1 = Inr (w1, ReturnsLosses all)" and "s \<noteq> 0"
  shows "length all = nat epochs * length dl \<and>
         fit_GD m w dl epochs s = Inr (w1, ReturnsLosses (sampled s 0 all))"
proof -
  from assms(1) obtain n' where run: "fit_GD_epochs m 1 dl (nat epochs) (w, 0, []) = Inr (w1, n', all)"
    by (auto simp: fit_GD_def split: sum.splits prod.splits)
  from fit_GD_epochs_sampling [OF run assms(2), of "[]"]
  show ?thesis by (auto simp: fit_GD_def)
qed

lemma samples_250_100: "filter (\<lambda>k. int k mod 100 = 0) [1..<Suc 250] = [100, 200]"
  by code_simp

lemma demo_gd_batch:
  "fit_GD_batch demo_gd 1 ((k, calls), n, l) demo_keyed_batch
     = Inr ((Suc k, calls), Suc n, l @ [real (Suc k)])"
  by (simp add: fit_GD_batch_def demo_gd_def demo_keyed_batch_def demo_esn_def demo_batch_def
      read_batch_def encode_def demo_forward_def demo_tokens_def read_local_def
      apply_pooling_strategy_def demo_merge_def isinstance_def)

lemma demo_gd_batches:
  "fit_GD_batches demo_gd 1 ((k, calls), n, l) (replicate j demo_keyed_batch)
     = Inr ((k + j, calls), n + j, l @ map real [Suc k..<Suc (k + j)])"
proof (induction j arbitrary: k n l)
  case 0
  then show ?case by simp
next
  case (Suc j)
  have "[Suc k..<Suc (k + Suc j)] = Suc k # [Suc (Suc k)..<Suc (Suc k + j)]"
    by (simp add: upt_rec)
  then show ?case by (simp add: demo_gd_batch Suc.IH del: upt_Suc)
qed

lemma demo_gd_epochs:
  "fit_GD_epochs demo_gd 1 (replicate j demo_keyed_batch) e ((k, calls), n, l)
     = Inr ((k + e * j, calls), n + e * j, l @ map real [Suc k..<Suc (k + e * j)])"
proof (induction e arbitrary: k n l)
  case 0
  then show ?case by simp
next
  case (Suc e)
  have "[Suc k..<Suc (k + j + e * j)] = [Suc k..<Suc (k + j)] @ [Suc (k + j)..<Suc (k + j + e * j)]"
    using upt_add_eq_append [of "Suc k" "Suc (k + j)" "e * j"] by simp
  then show ?case by (simp add: demo_gd_batches Suc.IH add.assoc del: upt_Suc)
qed

lemma demo_gd_run:
  "fit_GD demo_gd (0, []) (replicate 50 demo_keyed_batch) 5 1
     = Inr ((250, []), ReturnsLosses (map real [1..<251]))"
proof -
  have "nat 5 = (5::nat)" by simp
  then show ?thesis
    using demo_gd_epochs [of 50 5 0 "[]" 0 "[]"] by (simp add: fit_GD_def del: upt_Suc)
qed

text \<open>
  C7. On the closed-form path \<open>fit\<close> returns \<open>None\<close>: whatever it returns is
  \<open>None\<close>, and it does return once the batches are processed, the states and labels
  concatenated and the learning algorithm fitted. On the iterative path it returns a list
  of losses. If the same training recorded at every iteration (\<open>iter_steps = 1\<close>) returns
  the losses \<open>all\<close>, one per iteration over all epochs and batches, then training with
  \<open>iter_steps > 0\<close> ends with the same weights and returns, in order, the losses of
  exactly the iterations whose number, counted from 1, is a multiple of \<open>iter_steps\<close>.
  After 250 iterations with \<open>iter_steps = 100\<close> these are the two losses of iterations
  100 and 200.
\<close>

theorem fit_result_and_loss_sampling:
  "(closed_form (la_mro m) \<longrightarrow>
      (\<forall>w' r. fit m w dl epochs iter_steps = Inr (w', r) \<longrightarrow> r = ReturnsNone) \<and>
      (\<forall>states_l labels_l all_states all_labels w'.
         fit_direct_loop m ([], []) dl = Inr (states_l, labels_l) \<and>
         cat_dim0 states_l = Inr all_states \<and> cat_labels labels_l = Inr all_labels \<and>
         la_fit m w all_states all_labels = Inr w'
         \<longrightarrow> fit m w dl epochs iter_steps = Inr (w', ReturnsNone))) \<and>
   (\<not> closed_form (la_mro m) \<longrightarrow>
      (\<forall>w' r. fit m w dl epochs iter_steps = Inr (w', r) \<longrightarrow> (\<exists>loss_l. r = ReturnsLosses loss_l)) \<and>
      (\<forall>w1 all. fit_GD m w dl epochs 1 = Inr (w1, ReturnsLosses all) \<and> 0 < iter_steps \<longrightarrow>
         length all = nat epochs * length dl \<and>
         fit m w dl epochs iter_steps
           = Inr (w1, ReturnsLosses (map (\<lambda>k. all ! (k - 1))
                        (filter (\<lambda>k. int k mod iter_steps = 0) [1..<Suc (length all)]))) \<and>
         (length all = 250 \<and> iter_steps = 100 \<longrightarrow>
            fit m w dl epochs iter_steps = Inr (w1, ReturnsLosses [all ! 99, all ! 199]))))"
proof (intro conjI impI allI)
  fix w' r assume "closed_form (la_mro m)" "fit m w dl epochs iter_steps = Inr (w', r)"
  then show "r = ReturnsNone"
    by (auto simp: fit_def fit_direct_def split: sum.splits prod.splits)
next
  fix states_l labels_l all_states all_labels w'
  assume "closed_form (la_mro m)"
    "fit_direct_loop m ([], []) dl = Inr (states_l, labels_l) \<and>
     cat_dim0 states_l = Inr all_states \<and> cat_labels labels_l = Inr all_labels \<and>
     la_fit m w all_states all_labels = Inr w'"
  then show "fit m w dl epochs iter_steps = Inr (w', ReturnsNone)"
    by (simp add: fit_def fit_direct_def)
next
  fix w' r assume "\<not> closed_form (la_mro m)" "fit m w dl epochs iter_steps = Inr (w', r)"
  then show "\<exists>loss_l. r = ReturnsLosses loss_l"
    by (auto simp: fit_def fit_GD_def split: sum.splits prod.splits)
next
  fix w1 all
  assume nc: "\<not> closed_form (la_mro m)"
    and h: "fit_GD m w dl epochs 1 = Inr (w1, ReturnsLosses all) \<and> 0 < iter_steps"
  then have s: "iter_steps \<noteq> 0" by simp
  from fit_GD_sampling [OF conjunct1 [OF h] s]
  have len: "length all = nat epochs * length dl"
    and run: "fit_GD m w dl epochs iter_steps = Inr (w1, ReturnsLosses (sampled iter_steps 0 all))"
    by blast+
  show "length all = nat epochs * length dl" by (rule len)
  show fit: "fit m w dl epochs iter_steps
           = Inr (w1, ReturnsLosses (map (\<lambda>k. all ! (k - 1))
                        (filter (\<lambda>k. int k mod iter_steps = 0) [1..<Suc (length all)])))"
    using nc run by (simp add: fit_def sampled_index)
  assume "length all = 250 \<and> iter_steps = 100"
  then show "fit m w dl epochs iter_steps = Inr (w1, ReturnsLosses [all ! 99, all ! 199])"
    using fit samples_250_100 by simp
qed

theorem fit_result_and_loss_sampling_witness:
  "fit demo_gd (0, []) (replicate 50 demo_keyed_batch) 5 100
     = Inr ((250, []), ReturnsLosses [100, 200]) \<and>
   fit demo_cf (0, []) [demo_keyed_batch] 5 100
     = Inr ((0, [([[2], [6]], [0, 1])]), ReturnsNone)"
proof -
  let ?all = "map real [1..<251]"
  let ?dl = "replicate 50 demo_keyed_batch"
  have nc: "\<not> closed_form (la_mro demo_gd)"
    by (simp add: closed_form_def isinstance_def demo_gd_def demo_esn_def)
  have h: "fit_GD demo_gd (0, []) ?dl 5 1 = Inr ((250, []), ReturnsLosses ?all) \<and> 0 < (100::int)"
    using demo_gd_run by simp
  have l: "length ?all = 250 \<and> (100::int) = 100" by simp
  have gd: "fit demo_gd (0, []) ?dl 5 100 = Inr ((250, []), ReturnsLosses [?all ! 99, ?all ! 199])"
    using fit_result_and_loss_sampling [of demo_gd "(0, [])" ?dl 5 100] nc h l by blast
  have "?all ! 99 = 100" "?all ! 199 = 200"
    by (simp_all add: nth_map_upt del: upt_Suc)
  then have gd': "fit demo_gd (0, []) ?dl 5 100 = Inr ((250, []), ReturnsLosses [100, 200])"
    using gd by simp
  have c: "closed_form (la_mro demo_cf)"
    by (simp add: closed_form_def isinstance_def demo_cf_def demo_esn_def)
  have d: "fit_direct_loop demo_cf ([], []) [demo_keyed_batch] = Inr ([[[2], [6]]], [Some [0, 1]]) \<and>
      cat_dim0 [[[2], [6 :: real]]] = Inr [[2], [6]] \<and> cat_labels [Some [0, 1]] = Inr [0, 1] \<and>
      la_fit demo_cf (0, []) [[2], [6]] [0, 1] = Inr (0, [([[2], [6]], [0, 1])])"
    by code_simp
  have cf: "fit demo_cf (0, []) [demo_keyed_batch] 5 100
      = Inr ((0, [([[2], [6]], [0, 1])]), ReturnsNone)"
    using fit_result_and_loss_sampling [of demo_cf "(0, [])" "[demo_keyed_batch]" 5 100] c d by blast
  show ?thesis using gd' cf by simp
qed

subsection \<open>Closed-form training fits once\<close>

lemma fit_direct_batch_acc:
  "fit_direct_batch m acc b =
     (case fit_direct_batch m ([], []) b of
        Inl e \<Rightarrow> Inl e
      | Inr (xs, ys) \<Rightarrow> Inr (fst acc @ xs, snd acc @ ys))"
  unfolding fit_direct_batch_def
  by (simp split: sum.split option.split prod.split)

lemma fit_direct_loop_per_batch:
  assumes "list_all2 (\<lambda>b (X, y). fit_direct_batch m ([], []) b = Inr ([X], [Some y])) dl per_batch"
  shows "fit_direct_loop m acc dl
           = Inr (fst acc @ map fst per_batch, snd acc @ map (\<lambda>p. Some (snd p)) per_batch)"
  using assms
proof (induction dl per_batch arbitrary: acc rule: list_all2_induct)
  case Nil
  then show ?case by simp
next
  case (Cons b dl p per_batch)
  obtain X y where p: "p = (X, y)" by (cases p) auto
  have "fit_direct_batch m acc b = Inr (fst acc @ [X], snd acc @ [Some y])"
    using Cons.hyps(1) p by (simp add: fit_direct_batch_acc [of m acc])
  then show ?case using Cons.IH [of "(fst acc @ [X], snd acc @ [Some y])"] p by simp
qed

text \<open>
  C8 (as amended). A dataset of at least one batch, every batch of which the loop body
  of \<open>_fit_direct\<close> turns into merged states \<open>X\<close> and labels \<open>y\<close>, all of one
  feature width: the result of \<open>_fit_direct\<close> is that of one call of the learning
  algorithm's \<open>fit\<close>, on the starting weights, with the rows of all \<open>X\<close> in batch order
  as design matrix and all \<open>y\<close> in batch order as targets; \<open>None\<close> is returned with
  the weights of that call.
\<close>

theorem fit_direct_fits_once:
  assumes "dl \<noteq> []"
    and "list_all2 (\<lambda>b (X, y). fit_direct_batch m ([], []) b = Inr ([X], [Some y])) dl per_batch"
    and "same_width (concat (map fst per_batch))"
  shows "fit_direct m w dl =
           (case la_fit m w (concat (map fst per_batch)) (concat (map snd per_batch)) of
              Inl e \<Rightarrow> Inl e
            | Inr w' \<Rightarrow> Inr (w', ReturnsNone))"
proof -
  have ne: "per_batch \<noteq> []" using assms(1,2) by (auto dest: list_all2_lengthD)
  have loop: "fit_direct_loop m ([], []) dl
      = Inr (map fst per_batch, map (\<lambda>p. Some (snd p)) per_batch)"
    using fit_direct_loop_per_batch [OF assms(2), of "([], [])"] by simp
  have states: "cat_dim0 (map fst per_batch) = Inr (concat (map fst per_batch))"
    using ne assms(3) by (simp add: cat_dim0_def)
  have labels: "cat_labels (map (\<lambda>p. Some (snd p)) per_batch) = Inr (concat (map snd per_batch))"
    using ne by (simp add: cat_labels_def list_all_iff comp_def)
  show ?thesis
    unfolding fit_direct_def loop by (simp add: states labels)
qed

text \<open>
  C8 as stated fails on the dataset without batches: \<open>torch.cat\<close> of the empty list
  raises before the learning algorithm is fitted.
\<close>

theorem fit_direct_empty_dataset_counterexample:
  "fit_direct demo_cf (0, []) [] = Inl RuntimeError"
  by code_simp

theorem fit_direct_fits_once_witness:
  "fit_direct demo_cf (0, [])
     [Keyed (demo_batch [[1, 2, 0], [4, 5, 6]] (Holds [0, 1]) Absent),
      Keyed (demo_batch [[7, 0, 0], [8, 9, 0]] (Holds [1, 1]) Absent)]
   = Inr ((0, [([[2], [6], [7], [9]], [0, 1, 1, 1])]), ReturnsNone)"
proof -
  let ?b1 = "Keyed (demo_batch [[1, 2, 0], [4, 5, 6]] (Holds [0, 1]) Absent) :: (nat list list, real) batch"
  let ?b2 = "Keyed (demo_batch [[7, 0, 0], [8, 9, 0]] (Holds [1, 1]) Absent) :: (nat list list, real) batch"
  let ?per = "[([[2], [6]], [0, 1]), ([[7], [9]], [1, 1])] :: (real tensor2 \<times> int list) list"
  have b1: "fit_direct_batch demo_cf ([], []) ?b1 = Inr ([[[2], [6]]], [Some [0, 1]])"
    by code_simp
  have b2: "fit_direct_batch demo_cf ([], []) ?b2 = Inr ([[[7], [9]]], [Some [1, 1]])"
    by code_simp
  have h1: "[?b1, ?b2] \<noteq> []" by simp
  have h2: "list_all2 (\<lambda>b (X, y). fit_direct_batch demo_cf ([], []) b = Inr ([X], [Some y]))
      [?b1, ?b2] ?per"
    using b1 b2 by simp
  have h3: "same_width (concat (map fst ?per))" by (simp add: same_width_def)
  show ?thesis
    using fit_direct_fits_once [OF h1 h2 h3, of "(0, [])"] by (simp add: demo_cf_def demo_esn_def)
qed

end
